theory Spec2Isabelle
  imports Complex_Main
begin

section \<open>JavaScript values used by the provider layer\<close>

text \<open>
  A thrown \<open>Error\<close> object: its message, and the \<open>code\<close> and \<open>status\<close> properties that
  transport errors may carry (absent on a plain \<open>new Error(msg)\<close>).
\<close>

datatype js_error = JsError (message: string) (code: "string option") (status: "string option")

definition Error :: "string \<Rightarrow> js_error" where
  "Error msg = JsError msg None None"

text \<open>
  A name-valued slot (\<open>this.defaultProvider\<close>, \<open>options.provider\<close>) holds a string or
  \<open>null\<close>/\<open>undefined\<close> (\<open>None\<close>). JavaScript's truthiness test, which the registry uses
  for every "is it set" question, treats the empty string like \<open>null\<close>.
\<close>

definition truthy :: "string option \<Rightarrow> bool" where
  "truthy x = (case x of None \<Rightarrow> False | Some n \<Rightarrow> n \<noteq> [])"

text \<open>\<open>a || b\<close> on name-valued slots.\<close>

definition js_or :: "string option \<Rightarrow> string option \<Rightarrow> string option" where
  "js_or a b = (if truthy a then a else b)"

text \<open>\<open>Array.prototype.join\<close>.\<close>

fun join :: "string \<Rightarrow> string list \<Rightarrow> string" where
  "join sep [] = []"
| "join sep [x] = x"
| "join sep (x # y # ys) = x @ sep @ join sep (y # ys)"

text \<open>
  A lookup \<open>table[name]\<close> in a plain object finds the object's own properties and, under
  these names, the members that every object inherits from \<open>Object.prototype\<close>. Those are
  functions (\<open>__proto__\<close> is the prototype itself): truthy values that are neither strings
  nor arrays.
\<close>

definition object_prototype :: "string list" where
  "object_prototype =
     [''constructor'', ''__defineGetter__'', ''__defineSetter__'', ''hasOwnProperty'',
      ''__lookupGetter__'', ''__lookupSetter__'', ''isPrototypeOf'', ''propertyIsEnumerable'',
      ''toString'', ''valueOf'', ''__proto__'', ''toLocaleString'']"

text \<open>
  A JavaScript \<open>Map\<close> keeps its keys in insertion order; \<open>set\<close> on a key that is present
  replaces the value in place, on a new key appends.
\<close>

fun map_set :: "'k \<Rightarrow> 'v \<Rightarrow> ('k \<times> 'v) list \<Rightarrow> ('k \<times> 'v) list" where
  "map_set k v [] = [(k, v)]"
| "map_set k v ((k', v') # m) = (if k' = k then (k, v) # m else (k', v') # map_set k v m)"

definition map_has :: "'k \<Rightarrow> ('k \<times> 'v) list \<Rightarrow> bool" where
  "map_has k m = (map_of m k \<noteq> None)"

definition map_keys :: "('k \<times> 'v) list \<Rightarrow> 'k list" where
  "map_keys m = map fst m"

section \<open>The provider registry (registry.js)\<close>

text \<open>
  \<open>providers\<close> is the \<open>Map\<close> from name to provider object, \<open>defaultProvider\<close> the name of
  the default or \<open>null\<close>. A provider value \<open>'p\<close> is the handle the registry stores; whatever
  an operation does to a provider or to the outside world is threaded through a state \<open>'s\<close>.
\<close>

record 'p registry =
  providers :: "(string \<times> 'p) list"
  defaultProvider :: "string option"

text \<open>
  The two fields as the constructor sets them before it calls \<open>initializeProviders()\<close>.
  The registry that \<open>new ProviderRegistry()\<close> returns is \<open>ProviderRegistry\<close> below, which
  already holds the built-in providers.
\<close>

definition empty_registry :: "'p registry" where
  "empty_registry = \<lparr>providers = [], defaultProvider = None\<rparr>"

text \<open>
  \<open>registerProvider(name, ProviderClass, config)\<close>: the whole body sits in a \<open>try\<close> whose
  handler only logs, so a constructor that throws leaves the registry as it was.
\<close>

definition registerProvider ::
  "string \<Rightarrow> ('c \<Rightarrow> js_error + 'p) \<Rightarrow> 'c \<Rightarrow> 'p registry \<Rightarrow> 'p registry" where
  "registerProvider name ProviderClass config r =
     (case ProviderClass config of
        Inl error \<Rightarrow> r
      | Inr provider \<Rightarrow>
          (let r1 = r\<lparr>providers := map_set name provider (providers r)\<rparr>
           in if \<not> truthy (defaultProvider r1) then r1\<lparr>defaultProvider := Some name\<rparr> else r1))"

text \<open>How a name that may be \<open>undefined\<close> prints inside a template literal.\<close>

definition show_name :: "string option \<Rightarrow> string" where
  "show_name x = (case x of None \<Rightarrow> ''undefined'' | Some n \<Rightarrow> n)"

definition not_found_message :: "string option \<Rightarrow> 'p registry \<Rightarrow> string" where
  "not_found_message name r =
     ''Provider '' @ [CHR 0x27] @ show_name name @ [CHR 0x27] @ '' not found. Available providers: ''
       @ join '', '' (map_keys (providers r))"

text \<open>
  \<open>getProvider(name)\<close>. The first branch returns \<open>Map.get\<close> of the default, which is
  \<open>undefined\<close> (\<open>Inr None\<close>) when the default is not a key.
\<close>

definition getProvider :: "string option \<Rightarrow> 'p registry \<Rightarrow> js_error + 'p option" where
  "getProvider name r =
     (if \<not> truthy name \<and> truthy (defaultProvider r)
      then Inr (case defaultProvider r of None \<Rightarrow> None | Some d \<Rightarrow> map_of (providers r) d)
      else (case (case name of None \<Rightarrow> None | Some n \<Rightarrow> map_of (providers r) n) of
              None \<Rightarrow> Inl (Error (not_found_message name r))
            | Some provider \<Rightarrow> Inr (Some provider)))"

definition setDefaultProvider :: "string \<Rightarrow> 'p registry \<Rightarrow> (js_error + unit) \<times> 'p registry" where
  "setDefaultProvider name r =
     (if \<not> map_has name (providers r)
      then (Inl (Error (''Provider '' @ [CHR 0x27] @ name @ [CHR 0x27] @ '' not found'')), r)
      else (Inr (), r\<lparr>defaultProvider := Some name\<rparr>))"

text \<open>The calls that mutate a registry, and a run of them from a given registry.\<close>

datatype ('c, 'p) registry_call =
    RegisterProvider string "'c \<Rightarrow> js_error + 'p" 'c
  | SetDefaultProvider string

fun apply_call :: "('c, 'p) registry_call \<Rightarrow> 'p registry \<Rightarrow> 'p registry" where
  "apply_call (RegisterProvider name ProviderClass config) r = registerProvider name ProviderClass config r"
| "apply_call (SetDefaultProvider name) r = snd (setDefaultProvider name r)"

fun run_calls :: "('c, 'p) registry_call list \<Rightarrow> 'p registry \<Rightarrow> 'p registry" where
  "run_calls [] r = r"
| "run_calls (c # cs) r = run_calls cs (apply_call c r)"

definition default_registered :: "'p registry \<Rightarrow> bool" where
  "default_registered r =
     (case defaultProvider r of None \<Rightarrow> True | Some d \<Rightarrow> map_has d (providers r))"

subsection \<open>executeWithFallback\<close>

text \<open>
  The message of the error thrown once every attempt has failed:
  \<open>`All providers failed:\n${errors.map(e => `- ${e.provider}: ${e.error}`).join('\n')}`\<close>.
\<close>

definition all_failed_message :: "(string \<times> string) list \<Rightarrow> string" where
  "all_failed_message errors =
     ''All providers failed:'' @ [CHR 0x0A]
       @ join [CHR 0x0A] (map (\<lambda>(p, e). ''- '' @ p @ '': '' @ e) errors)"

text \<open>
  An operation is an async function of the provider it is handed; it returns or throws,
  and changes the state \<open>'s\<close>. The provider handed over is what \<open>getProvider\<close> returned,
  so it is an optional value.
\<close>

type_synonym ('p, 's, 'a) operation = "'p option \<Rightarrow> 's \<Rightarrow> (js_error + 'a) \<times> 's"

text \<open>
  The \<open>for (const [name, provider] of this.providers)\<close> loop with the \<open>throw\<close> that
  follows it: \<open>errors\<close> is the array of failures pushed so far.
\<close>

fun try_others ::
  "('p, 's, 'a) operation \<Rightarrow> string option \<Rightarrow> (string \<times> 'p) list \<Rightarrow> (string \<times> string) list
     \<Rightarrow> 's \<Rightarrow> (js_error + 'a) \<times> 's" where
  "try_others operation preferredProvider [] errors s =
     (Inl (Error (all_failed_message errors)), s)"
| "try_others operation preferredProvider ((name, provider) # rest) errors s =
     (if Some name = preferredProvider
      then try_others operation preferredProvider rest errors s
      else (case operation (Some provider) s of
              (Inr result, s') \<Rightarrow> (Inr result, s')
            | (Inl error, s') \<Rightarrow>
                try_others operation preferredProvider rest (errors @ [(name, message error)]) s'))"

definition executeWithFallback ::
  "('p, 's, 'a) operation \<Rightarrow> string option \<Rightarrow> 'p registry \<Rightarrow> 's \<Rightarrow> (js_error + 'a) \<times> 's" where
  "executeWithFallback operation options_provider r s =
     (let preferredProvider = js_or options_provider (defaultProvider r) in
      if truthy preferredProvider
      then (case getProvider preferredProvider r of
              Inl error \<Rightarrow>
                try_others operation preferredProvider (providers r)
                  [(show_name preferredProvider, message error)] s
            | Inr provider \<Rightarrow>
                (case operation provider s of
                   (Inr result, s') \<Rightarrow> (Inr result, s')
                 | (Inl error, s') \<Rightarrow>
                     try_others operation preferredProvider (providers r)
                       [(show_name preferredProvider, message error)] s'))
      else try_others operation preferredProvider (providers r) [] s)"

subsection \<open>The fallback order in the specification's words\<close>

text \<open>
  The specification describes one scan: the preferred provider first, then every other
  registered provider in registration order, stopping at the first success and otherwise
  collecting one failure per provider tried. \<open>attempt_order\<close> is that list of attempts (the
  preferred name with what the registry holds under it, then the others), \<open>attempt\<close> is one
  attempt (a name that is not registered fails with the lookup's error), and
  \<open>first_success\<close> is the scan.
\<close>

definition attempt_order :: "string option \<Rightarrow> 'p registry \<Rightarrow> (string \<times> 'p option) list" where
  "attempt_order preferred r =
     (case preferred of None \<Rightarrow> [] | Some p \<Rightarrow> [(p, map_of (providers r) p)])
       @ map (\<lambda>(n, provider). (n, Some provider))
           (filter (\<lambda>(n, provider). Some n \<noteq> preferred) (providers r))"

definition attempt ::
  "('p, 's, 'a) operation \<Rightarrow> 'p registry \<Rightarrow> string \<times> 'p option \<Rightarrow> 's \<Rightarrow> (js_error + 'a) \<times> 's" where
  "attempt operation r target s =
     (case snd target of
        None \<Rightarrow> (Inl (Error (not_found_message (Some (fst target)) r)), s)
      | Some provider \<Rightarrow> operation (Some provider) s)"

fun first_success ::
  "(string \<times> 't \<Rightarrow> 's \<Rightarrow> (js_error + 'a) \<times> 's) \<Rightarrow> (string \<times> 't) list \<Rightarrow> 's
     \<Rightarrow> ((string \<times> string) list + 'a) \<times> 's" where
  "first_success f [] s = (Inl [], s)"
| "first_success f (target # rest) s =
     (case f target s of
        (Inr result, s') \<Rightarrow> (Inr result, s')
      | (Inl error, s') \<Rightarrow>
          (case first_success f rest s' of
             (Inr result, s'') \<Rightarrow> (Inr result, s'')
           | (Inl errors, s'') \<Rightarrow> (Inl ((fst target, message error) # errors), s'')))"

text \<open>What the caller sees of a scan: the first result, or the aggregate error.\<close>

definition fallback_outcome ::
  "((string \<times> string) list + 'a) \<times> 's \<Rightarrow> (js_error + 'a) \<times> 's" where
  "fallback_outcome x =
     (case x of
        (Inr result, s') \<Rightarrow> (Inr result, s')
      | (Inl errors, s') \<Rightarrow> (Inl (Error (all_failed_message errors)), s'))"

section \<open>The provider base class (base-provider.js)\<close>

record usage_counters =
  requests :: int
  tokens :: int
  lastReset :: int

record rate_limits =
  requestsPerHour :: int
  requestsPerMinute :: int
  tokensPerMinute :: int

text \<open>
  The fields of \<open>BaseProvider\<close> that the provider layer reads or writes. Times are
  milliseconds since the epoch, as \<open>Date\<close> arithmetic gives them. The concrete providers
  extend this record.
\<close>

record base_provider =
  name :: string
  rateLimits :: rate_limits
  usage :: usage_counters

definition BaseProvider :: "string \<Rightarrow> int \<Rightarrow> base_provider" where
  "BaseProvider nm now =
     \<lparr>name = nm,
      rateLimits = \<lparr>requestsPerHour = 1000, requestsPerMinute = 60, tokensPerMinute = 10000\<rparr>,
      usage = \<lparr>requests = 0, tokens = 0, lastReset = now\<rparr>\<rparr>"

text \<open>Decimal rendering of a number inside a template literal.\<close>

fun show_nat :: "nat \<Rightarrow> string" where
  "show_nat n =
     (if n < 10 then [''0123456789'' ! n]
      else show_nat (n div 10) @ [''0123456789'' ! (n mod 10)])"

declare show_nat.simps [simp del]

definition show_int :: "int \<Rightarrow> string" where
  "show_int i = (if i < 0 then CHR ''-'' # show_nat (nat (- i)) else show_nat (nat i))"

text \<open>
  \<open>checkRateLimits()\<close> at wall-clock time \<open>now\<close>: the hourly reset is part of this method, and
  is kept when the method then throws.
\<close>

definition checkRateLimits ::
  "int \<Rightarrow> 'x base_provider_scheme \<Rightarrow> (js_error + unit) \<times> 'x base_provider_scheme" where
  "checkRateLimits now p =
     (let timeSinceReset = now - lastReset (usage p);
          p1 = (if timeSinceReset > 3600000
                then p\<lparr>usage := \<lparr>requests = 0, tokens = 0, lastReset = now\<rparr>\<rparr>
                else p)
      in if requests (usage p1) \<ge> requestsPerHour (rateLimits p1)
         then (Inl (Error (''Rate limit exceeded: '' @ show_int (requestsPerHour (rateLimits p1))
                             @ '' requests per hour'')), p1)
         else (Inr (), p1))"

definition trackUsage :: "int \<Rightarrow> 'x base_provider_scheme \<Rightarrow> 'x base_provider_scheme" where
  "trackUsage tokenCount p =
     p\<lparr>usage := (usage p)\<lparr>requests := requests (usage p) + 1,
                             tokens := tokens (usage p) + tokenCount\<rparr>\<rparr>"

text \<open>\<open>Math.ceil(text.length / 4)\<close>.\<close>

definition estimateTokens :: "string \<Rightarrow> int" where
  "estimateTokens text = int ((length text + 3) div 4)"

text \<open>
  \<open>formatError(error)\<close> looks \<open>error.code\<close> and \<open>error.status\<close> up in a table of safe
  messages. The codes are errno names and HTTP statuses; none of them is the name of a
  member of \<open>Object.prototype\<close>, which the lookup would also find.
\<close>

definition safeErrors :: "string \<Rightarrow> string option" where
  "safeErrors = map_of
     [(''ECONNREFUSED'', ''Connection refused. Is the service running?''),
      (''ETIMEDOUT'', ''Request timed out. Please try again.''),
      (''rate_limit'', ''Rate limit exceeded. Please wait before retrying.''),
      (''401'', ''Authentication failed. Please check your API key.''),
      (''404'', ''Model not found. Please check the model name.''),
      (''500'', ''Server error. Please try again later.'')]"

definition formatError :: "js_error \<Rightarrow> string" where
  "formatError error =
     (case (case code error of None \<Rightarrow> None | Some c \<Rightarrow> safeErrors c) of
        Some m \<Rightarrow> m
      | None \<Rightarrow>
          (case (case status error of None \<Rightarrow> None | Some c \<Rightarrow> safeErrors c) of
             Some m \<Rightarrow> m
           | None \<Rightarrow> ''An error occurred''))"

section \<open>The outside world: HTTP backends and the cache file\<close>

text \<open>
  The \<open>options\<close> object that callers hand to \<open>complete\<close>; the same object reaches whichever
  provider serves the call, so it is one record with every property a provider reads.
  An absent property is \<open>None\<close> (\<open>False\<close> for the flags that are only tested for truth).
\<close>

record options =
  model :: "string option"
  modelTier :: "string option"
  autoPull :: "bool option"
  noCache :: bool
  stream :: bool
  temperature :: "real option"
  top_p :: "real option"
  top_k :: "int option"
  max_tokens :: "int option"
  maxTokens :: "int option"
  stop :: "string option"
  seed :: "int option"
  system :: "string option"

text \<open>The call \<open>complete(prompt)\<close> with the default \<open>options = {}\<close>.\<close>

definition no_options :: options where
  "no_options =
     \<lparr>model = None, modelTier = None, autoPull = None, noCache = False, stream = False,
      temperature = None, top_p = None, top_k = None, max_tokens = None, maxTokens = None,
      stop = None, seed = None, system = None\<rparr>"

text \<open>\<open>x || d\<close> for a number-valued option: absent and \<open>0\<close> both give the default.\<close>

definition num_or :: "'n::zero option \<Rightarrow> 'n \<Rightarrow> 'n" where
  "num_or x d = (case x of None \<Rightarrow> d | Some v \<Rightarrow> if v = 0 then d else v)"

text \<open>\<open>x || null\<close> for a number-valued option.\<close>

definition num_or_null :: "'n::zero option \<Rightarrow> 'n option" where
  "num_or_null x = (case x of None \<Rightarrow> None | Some v \<Rightarrow> if v = 0 then None else Some v)"

record generate_body =
  gen_model :: string
  gen_prompt :: string
  gen_stream :: bool
  gen_temperature :: real
  gen_top_p :: real
  gen_top_k :: int
  gen_num_predict :: int
  gen_stop :: "string option"
  gen_seed :: "int option"
  gen_system :: "string option"

record inference_body =
  inputs :: string
  max_new_tokens :: "int option"
  inf_temperature :: real
  inf_top_p :: real
  return_full_text :: bool

datatype request_body =
    NoBody
  | PullBody string
  | GenerateBody generate_body
  | InferenceBody inference_body

record http_request =
  http_method :: string
  url :: string
  authorization :: "string option"
  body :: request_body

text \<open>
  What a response carries once its body is read: the installed model names of
  \<open>/api/tags\<close>, the \<open>response\<close> property of \<open>/api/generate\<close>, the
  \<open>[0].generated_text\<close> or the \<open>error\<close> property of the inference API, a plain text, or
  something that does not parse.
\<close>

datatype payload =
    Version string
  | Tags "string list"
  | Generated "string option"
  | HFGenerated "string option"
  | HFErrorBody "string option"
  | Text string
  | Unparsable

record http_response =
  ok :: bool
  http_status :: nat
  payload :: payload

text \<open>
  An entry \<open>{value, expires}\<close> of the cache file \<open>cache-data.json\<close>, as
  \<open>savePersistentCache\<close> writes it: the cached text and the time it expires.
\<close>

record disk_entry =
  entry_value :: string
  expires :: int

text \<open>
  A cache key is a string. The keys that the hosted provider makes are
  \<open>JSON.stringify(params)\<close> of the object \<open>params\<close> below; \<open>JSON.stringify\<close> renders two
  such objects by the same text only when they are equal, so the model keeps the object
  itself as the key (\<open>Json\<close>); a property that is \<open>undefined\<close> is left out of the text
  (\<open>None\<close>). Any other string that the cache file may hold as a key is \<open>Raw\<close>.
\<close>

record key_params =
  kp_prompt :: string
  kp_model :: "string option"
  kp_temperature :: real
  kp_maxTokens :: "int option"

datatype cache_key = Json key_params | Raw string

text \<open>
  The cache file as \<open>loadPersistentCache\<close> meets it. \<open>Corrupt\<close> is content on which
  \<open>JSON.parse\<close> throws, or the text \<open>null\<close>, on which \<open>Object.entries\<close> throws. Any
  other file is \<open>Parsed\<close>: the value that \<open>JSON.parse\<close> returns, given by its properties
  in the order in which they were created, which is the order of the text (so the keys
  are distinct: a repeated key is one property). The file need not be one that the
  program wrote, so a property's value is a record of a text and an expiry (\<open>Entry\<close>), or
  \<open>null\<close> (\<open>NullEntry\<close>), or any other value that has no \<open>expires\<close> to compare with a
  number (\<open>NoExpiry\<close>: a number, a string, an array, an object without that property).
  Records whose \<open>value\<close> is not a string or whose \<open>expires\<close> is not an integer are not
  modelled. \<open>CacheData\<close> is an object of records only, which is what
  \<open>savePersistentCache\<close> builds and writes.
\<close>

datatype file_entry = NullEntry | Entry disk_entry | NoExpiry

datatype file_content =
    Corrupt
  | Parsed "(cache_key \<times> file_entry) list"

definition recorded :: "(cache_key \<times> disk_entry) list \<Rightarrow> (cache_key \<times> file_entry) list" where
  "recorded records = map (\<lambda>(key, entry). (key, Entry entry)) records"

definition CacheData :: "(cache_key \<times> disk_entry) list \<Rightarrow> file_content" where
  "CacheData records = Parsed (recorded records)"

text \<open>
  \<open>Object.entries\<close> does not list the properties of an object in the order of their
  creation: the keys that are array indices (the decimal numerals of the numbers below
  \<open>2^32 - 1\<close>, without leading zeros) come first, in ascending order, and the other keys
  follow in the order in which they were created. The keys that the hosted provider makes
  begin with a brace, so none of them is an array index.
\<close>

definition digit :: "char \<Rightarrow> nat option" where
  "digit = map_of
     [(CHR ''0'', 0), (CHR ''1'', 1), (CHR ''2'', 2), (CHR ''3'', 3), (CHR ''4'', 4),
      (CHR ''5'', 5), (CHR ''6'', 6), (CHR ''7'', 7), (CHR ''8'', 8), (CHR ''9'', 9)]"

fun digits_value :: "nat \<Rightarrow> string \<Rightarrow> nat option" where
  "digits_value n [] = Some n"
| "digits_value n (c # cs) =
     (case digit c of None \<Rightarrow> None | Some d \<Rightarrow> digits_value (10 * n + d) cs)"

definition array_index :: "cache_key \<Rightarrow> nat option" where
  "array_index key =
     (case key of
        Json params \<Rightarrow> None
      | Raw s \<Rightarrow>
          (case s of
             [] \<Rightarrow> None
           | c # cs \<Rightarrow>
               if c = CHR ''0'' \<and> cs \<noteq> [] then None
               else (case digits_value 0 s of
                       None \<Rightarrow> None
                     | Some n \<Rightarrow> if n < 2 ^ 32 - 1 then Some n else None)))"

definition index_or_zero :: "cache_key \<Rightarrow> nat" where
  "index_or_zero key = (case array_index key of None \<Rightarrow> 0 | Some i \<Rightarrow> i)"

definition object_entries :: "(cache_key \<times> 'e) list \<Rightarrow> (cache_key \<times> 'e) list" where
  "object_entries props =
     sort_key (\<lambda>p. index_or_zero (fst p)) (filter (\<lambda>p. array_index (fst p) \<noteq> None) props)
       @ filter (\<lambda>p. array_index (fst p) = None) props"

text \<open>
  The world a provider acts on: the requests sent so far, the state of the backend that
  answers them, and the cache directory with its file (\<open>None\<close> when the file is missing).
  A backend is a function from a request and its state to the outcome of \<open>fetch\<close>, which
  throws a transport error or resolves to a response.
\<close>

record 'b world =
  net_log :: "http_request list"
  backend :: 'b
  cache_dir_exists :: bool
  cache_file :: "file_content option"

type_synonym 'b server = "http_request \<Rightarrow> 'b \<Rightarrow> (js_error + http_response) \<times> 'b"

definition fetch ::
  "'b server \<Rightarrow> http_request \<Rightarrow> 'b world \<Rightarrow> (js_error + http_response) \<times> 'b world" where
  "fetch server req w =
     (case server req (backend w) of
        (res, b') \<Rightarrow> (res, w\<lparr>net_log := net_log w @ [req], backend := b'\<rparr>))"

text \<open>The error of reading a property of \<open>undefined\<close> or of a body that does not parse.\<close>

definition TypeError :: js_error where
  "TypeError = Error ''TypeError''"

text \<open>\<open>String.prototype.startsWith\<close> and \<open>String.prototype.includes\<close>.\<close>

definition startsWith :: "string \<Rightarrow> string \<Rightarrow> bool" where
  "startsWith s pre = (take (length pre) s = pre)"

fun includes_str :: "string \<Rightarrow> string \<Rightarrow> bool" where
  "includes_str [] sub = (sub = [])"
| "includes_str (c # cs) sub = (startsWith (c # cs) sub \<or> includes_str cs sub)"

section \<open>The local-inference provider (OllamaProvider)\<close>

record ollama_provider = base_provider +
  baseUrl :: string
  defaultModel :: string
  timeout :: int
  availableModels :: "string list option"

text \<open>
  The \<open>config\<close> object that \<open>registerProvider\<close> hands to a provider's constructor, with the
  properties that the constructors read; its default is \<open>{}\<close>.
\<close>

record provider_config =
  cfg_baseUrl :: "string option"
  cfg_defaultModel :: "string option"
  cfg_timeout :: "int option"
  cfg_apiKey :: "string option"
  cfg_cacheDir :: "string option"

definition no_config :: provider_config where
  "no_config =
     \<lparr>cfg_baseUrl = None, cfg_defaultModel = None, cfg_timeout = None, cfg_apiKey = None,
      cfg_cacheDir = None\<rparr>"

text \<open>
  The constructor, given the two environment variables it reads. It cannot throw.
\<close>

definition OllamaProvider ::
  "string option \<Rightarrow> string option \<Rightarrow> int \<Rightarrow> provider_config \<Rightarrow> ollama_provider" where
  "OllamaProvider env_base_url env_default_model now config =
     base_provider.extend
       ((BaseProvider ''ollama'' now)
          \<lparr>rateLimits := \<lparr>requestsPerHour = 10000, requestsPerMinute = 1000,
                          tokensPerMinute = 100000\<rparr>\<rparr>)
       (ollama_provider.fields
          (case js_or (js_or (cfg_baseUrl config) env_base_url) (Some ''http://localhost:11434'') of
             None \<Rightarrow> [] | Some u \<Rightarrow> u)
          (case js_or (js_or (cfg_defaultModel config) env_default_model) (Some ''llama3.2:1b'') of
             None \<Rightarrow> [] | Some m \<Rightarrow> m)
          (num_or (cfg_timeout config) 120000)
          None)"

text \<open>
  \<open>listModels()\<close>: the model objects are reduced to their \<open>id\<close>, the only property the
  provider layer reads. Every failure inside the \<open>try\<close> is rethrown with a safe message.
\<close>

definition listModels ::
  "'b server \<Rightarrow> 'x ollama_provider_scheme \<Rightarrow> 'b world \<Rightarrow> (js_error + string list) \<times> 'b world" where
  "listModels server p w =
     (case fetch server \<lparr>http_method = ''GET'', url = baseUrl p @ ''/api/tags'',
                          authorization = None, body = NoBody\<rparr> w of
        (Inl error, w') \<Rightarrow> (Inl (Error (''Failed to list models: '' @ formatError error)), w')
      | (Inr response, w') \<Rightarrow>
          if \<not> ok response
          then (Inl (Error (''Failed to list models: ''
                  @ formatError (Error (''Failed to list models: '' @ show_nat (http_status response))))), w')
          else (case payload response of
                  Tags names \<Rightarrow> (Inr names, w')
                | _ \<Rightarrow> (Inl (Error (''Failed to list models: '' @ formatError TypeError)), w')))"

text \<open>
  \<open>pullModel(modelName)\<close>: one \<open>POST /api/pull\<close>, then
  \<open>response.body.getReader()\<close>. \<open>fetch\<close> is \<open>require('node-fetch')\<close>, which
  \<open>package.json\<close> pins to \<open>^2.7.0\<close>; the body of such a response is a Node stream and has
  no \<open>getReader\<close>, so that line throws a \<open>TypeError\<close> on every response that is \<open>ok\<close>.
  The loop that would print the progress lines and the \<open>return true\<close> behind it are never
  reached: whatever the backend answers, the method throws \<open>Failed to pull model: ...\<close>
  from its handler.
\<close>

definition pullModel ::
  "'b server \<Rightarrow> string \<Rightarrow> 'x ollama_provider_scheme \<Rightarrow> 'b world \<Rightarrow> (js_error + bool) \<times> 'b world" where
  "pullModel server modelName p w =
     (case fetch server \<lparr>http_method = ''POST'', url = baseUrl p @ ''/api/pull'',
                          authorization = None, body = PullBody modelName\<rparr> w of
        (Inl error, w') \<Rightarrow> (Inl (Error (''Failed to pull model: '' @ formatError error)), w')
      | (Inr response, w') \<Rightarrow>
          if \<not> ok response
          then (Inl (Error (''Failed to pull model: ''
                  @ formatError (Error (''Failed to pull model: '' @ show_nat (http_status response))))), w')
          else (Inl (Error (''Failed to pull model: '' @ formatError TypeError)), w'))"

definition preferences :: "string \<Rightarrow> string list option" where
  "preferences = map_of
     [(''coding'', [''codellama'', ''deepseek-coder'', ''codegemma'', ''starcoder'', ''llama3.2'',
                    ''llama3'', ''llama2'', ''mistral'']),
      (''ultrathink'', [''llama3.2:3b'', ''llama3:8b'', ''llama2:13b'', ''llama2:7b'', ''mistral'',
                        ''neural-chat'']),
      (''creative'', [''neural-chat'', ''llama3.2'', ''llama3'', ''mistral'', ''llama2'']),
      (''analysis'', [''mistral'', ''llama3.2'', ''llama3'', ''llama2'', ''mixtral'']),
      (''balanced'', [''llama3.2'', ''llama3'', ''llama2'', ''mistral'', ''neural-chat''])]"

text \<open>
  The loop over the preference list: the first preference that some installed model name
  starts with decides (\<open>find\<close> returns the first such name; an empty name counts as no
  match), else the first installed model. The list is
  \<open>preferences[mode] || preferences.balanced\<close>; for a mode named like a member of
  \<open>Object.prototype\<close> that is a function, the \<open>for ... of\<close> over it throws, and the handler
  of the method returns the default model.
\<close>

fun first_preferred :: "string list \<Rightarrow> string list \<Rightarrow> string option" where
  "first_preferred [] modelNames = None"
| "first_preferred (pref # prefs) modelNames =
     (case find (\<lambda>nm. startsWith nm pref) modelNames of
        Some match \<Rightarrow> if match \<noteq> [] then Some match else first_preferred prefs modelNames
      | None \<Rightarrow> first_preferred prefs modelNames)"

definition getBestModelForMode ::
  "'b server \<Rightarrow> string \<Rightarrow> 'x ollama_provider_scheme \<Rightarrow> 'b world
     \<Rightarrow> string \<times> 'x ollama_provider_scheme \<times> 'b world" where
  "getBestModelForMode server mode p w =
     (case (case availableModels p of
              Some ms \<Rightarrow> (Inr ms, w)
            | None \<Rightarrow> listModels server p w) of
        (Inl error, w') \<Rightarrow> (defaultModel p, p, w')
      | (Inr modelNames, w') \<Rightarrow>
          (let p' = p\<lparr>availableModels := Some modelNames\<rparr> in
           case modelNames of
             [] \<Rightarrow> (defaultModel p', p', w')
           | first # others \<Rightarrow>
               if preferences mode = None \<and> mode \<in> set object_prototype
               then (defaultModel p', p', w')
               else
                 (let modePrefs = (case preferences mode of
                                     Some prefs \<Rightarrow> prefs
                                   | None \<Rightarrow> [''llama3.2'', ''llama3'', ''llama2'', ''mistral'',
                                               ''neural-chat''])
                  in case first_preferred modePrefs modelNames of
                       Some match \<Rightarrow> (match, p', w')
                     | None \<Rightarrow> (first, p', w'))))"

text \<open>What \<open>complete\<close> returns: the generated text, or the response body when streaming.\<close>

datatype completion = Completed string | Streaming payload

text \<open>
  The \<open>try\<close> block of \<open>complete\<close>: the generate request and the bookkeeping after it. Its
  handler rethrows whatever went wrong as \<open>Ollama completion failed: ...\<close>.
\<close>

definition generate ::
  "'b server \<Rightarrow> string \<Rightarrow> string \<Rightarrow> options \<Rightarrow> 'x ollama_provider_scheme \<Rightarrow> 'b world
     \<Rightarrow> (js_error + completion) \<times> 'x ollama_provider_scheme \<times> 'b world" where
  "generate server mdl prompt opts p w =
     (let requestBody =
            \<lparr>gen_model = mdl, gen_prompt = prompt, gen_stream = stream opts,
             gen_temperature = num_or (temperature opts) (7 / 10),
             gen_top_p = num_or (top_p opts) (9 / 10),
             gen_top_k = num_or (top_k opts) 40,
             gen_num_predict = num_or (max_tokens opts) 2048,
             gen_stop = js_or (stop opts) None,
             gen_seed = num_or_null (seed opts),
             gen_system = (if truthy (system opts) then system opts else None)\<rparr>
      in case fetch server \<lparr>http_method = ''POST'', url = baseUrl p @ ''/api/generate'',
                            authorization = None, body = GenerateBody requestBody\<rparr> w of
           (Inl error, w') \<Rightarrow>
             (Inl (Error (''Ollama completion failed: '' @ formatError error)), p, w')
         | (Inr response, w') \<Rightarrow>
             if \<not> ok response
             then (Inl (Error (''Ollama completion failed: ''
                     @ formatError (Error (''Ollama API error: ''
                         @ (case payload response of Text t \<Rightarrow> t | _ \<Rightarrow> []))))), p, w')
             else if stream opts then (Inr (Streaming (payload response)), p, w')
             else (case payload response of
                     Generated (Some text) \<Rightarrow>
                       (Inr (Completed text),
                        trackUsage (estimateTokens prompt + estimateTokens text) p, w')
                   | _ \<Rightarrow>
                       (Inl (Error (''Ollama completion failed: '' @ formatError TypeError)), p, w')))"

text \<open>
  \<open>complete(prompt, options)\<close> at wall-clock time \<open>now\<close>. The model is
  \<open>options.model || this.defaultModel || await this.getBestModelForMode('balanced')\<close>; the
  rate-limit check, the listing and the pull decision stand before the \<open>try\<close>, so their
  errors reach the caller as thrown. The code goes on to generate after a pull that
  returns; with \<open>pullModel\<close> as above that branch is never taken.
\<close>

definition complete_ollama ::
  "'b server \<Rightarrow> int \<Rightarrow> string \<Rightarrow> options \<Rightarrow> 'x ollama_provider_scheme \<Rightarrow> 'b world
     \<Rightarrow> (js_error + completion) \<times> 'x ollama_provider_scheme \<times> 'b world" where
  "complete_ollama server now prompt opts p w =
     (case (if truthy (model opts) then (show_name (model opts), p, w)
            else if defaultModel p \<noteq> [] then (defaultModel p, p, w)
            else getBestModelForMode server ''balanced'' p w) of
        (mdl, p0, w0) \<Rightarrow>
          (case checkRateLimits now p0 of
             (Inl error, p1) \<Rightarrow> (Inl error, p1, w0)
           | (Inr u, p1) \<Rightarrow>
               (case listModels server p1 w0 of
                  (Inl error, w1) \<Rightarrow> (Inl error, p1, w1)
                | (Inr models, w1) \<Rightarrow>
                    (let modelExists = (mdl \<in> set models) in
                     if \<not> modelExists
                     then (let shouldPull = (autoPull opts \<noteq> Some False) in
                           if shouldPull
                           then (case pullModel server mdl p1 w1 of
                                   (Inl error, w2) \<Rightarrow> (Inl error, p1, w2)
                                 | (Inr pulled, w2) \<Rightarrow> generate server mdl prompt opts p1 w2)
                           else (Inl (Error (''Model '' @ mdl
                                        @ '' not found. Use --pull to download it.'')), p1, w1))
                     else generate server mdl prompt opts p1 w1))))"

section \<open>The bounded cache with expiry (the \<open>lru-cache\<close> package)\<close>

text \<open>
  Modelled from the spec: the \<open>LRUCache\<close> class of the \<open>lru-cache\<close> package, which the
  providers import and which is not part of the source tree. The specification's Cache is
  a bounded mapping from key to entry with a fixed TTL; an entry is valid iff
  \<open>now < expiresAt\<close> with \<open>expiresAt = storedAt + TTL\<close>; \<open>get\<close> marks the entry as recently
  used and does not refresh its expiry, and is a miss once the entry has expired even if it is
  still physically present; \<open>set\<close> inserts or fully replaces, updates recency, and evicts
  the least-recently-used entry once the capacity is exceeded. The entries are kept most
  recently used first, each with the time it was stored. What happens to an evicted entry
  is the business of whoever constructed the cache (the \<open>dispose\<close> option), so \<open>cache_set\<close>
  returns it.
\<close>

record 'k lru_cache =
  cache_max :: nat
  cache_ttl :: int
  cache_entries :: "('k \<times> string \<times> int) list"

definition LRUCache :: "nat \<Rightarrow> int \<Rightarrow> 'k lru_cache" where
  "LRUCache mx ttl = \<lparr>cache_max = mx, cache_ttl = ttl, cache_entries = []\<rparr>"

definition cache_get :: "'k \<Rightarrow> int \<Rightarrow> 'k lru_cache \<Rightarrow> string option \<times> 'k lru_cache" where
  "cache_get k now c =
     (case map_of (cache_entries c) k of
        None \<Rightarrow> (None, c)
      | Some (v, storedAt) \<Rightarrow>
          if now < storedAt + cache_ttl c
          then (Some v, c\<lparr>cache_entries :=
                             (k, v, storedAt) # filter (\<lambda>e. fst e \<noteq> k) (cache_entries c)\<rparr>)
          else (None, c))"

definition cache_set ::
  "'k \<Rightarrow> string \<Rightarrow> int \<Rightarrow> 'k lru_cache \<Rightarrow> ('k \<times> string) option \<times> 'k lru_cache" where
  "cache_set k v now c =
     (let es = (k, v, now) # filter (\<lambda>e. fst e \<noteq> k) (cache_entries c) in
      if length es > cache_max c
      then (Some (fst (last es), fst (snd (last es))), c\<lparr>cache_entries := butlast es\<rparr>)
      else (None, c\<lparr>cache_entries := es\<rparr>))"

text \<open>\<open>cache.entries()\<close>: the valid entries, most recently used first.\<close>

definition cache_items :: "int \<Rightarrow> 'k lru_cache \<Rightarrow> ('k \<times> string) list" where
  "cache_items now c =
     map (\<lambda>(k, v, storedAt). (k, v))
       (filter (\<lambda>(k, v, storedAt). now < storedAt + cache_ttl c) (cache_entries c))"

definition cache_clear :: "'k lru_cache \<Rightarrow> 'k lru_cache" where
  "cache_clear c = c\<lparr>cache_entries := []\<rparr>"

section \<open>The hosted-inference provider (huggingface.js)\<close>

record cache_stats =
  hits :: nat
  misses :: nat
  diskReads :: nat
  diskWrites :: nat

record hf_provider = base_provider +
  apiKey :: string
  hf_baseUrl :: string
  cacheDir :: string
  cache :: "cache_key lru_cache"
  cacheStats :: cache_stats

text \<open>
  What \<open>this.models[modelTier]\<close> evaluates to, seen through the properties that \<open>complete\<close>
  reads from it; a property the object lacks is \<open>undefined\<close> (\<open>None\<close>).
\<close>

record hf_model =
  model_id :: "string option"
  model_maxTokens :: "int option"
  model_rateLimit :: "int option"

text \<open>
  \<open>this.models\<close> is a plain object that is never reassigned, and \<open>this.models[modelTier]\<close>
  is a property lookup: besides the three tiers it finds the members of
  \<open>Object.prototype\<close>. Those pass the truthiness test, and they have none of \<open>id\<close>,
  \<open>maxTokens\<close>, \<open>rateLimit\<close>.
\<close>

definition models :: "string \<Rightarrow> hf_model option" where
  "models tier =
     (case map_of
             [(''fast'', \<lparr>model_id = Some ''google/flan-t5-xl'', model_maxTokens = Some 512,
                          model_rateLimit = Some 5000\<rparr>),
              (''balanced'', \<lparr>model_id = Some ''mistralai/Mixtral-8x7B-Instruct-v0.1'',
                              model_maxTokens = Some 1024, model_rateLimit = Some 2000\<rparr>),
              (''deep'', \<lparr>model_id = Some ''meta-llama/Llama-2-70b-chat-hf'',
                          model_maxTokens = Some 1500, model_rateLimit = Some 500\<rparr>)] tier of
        Some mdl \<Rightarrow> Some mdl
      | None \<Rightarrow>
          if tier \<in> set object_prototype
          then Some \<lparr>model_id = None, model_maxTokens = None, model_rateLimit = None\<rparr>
          else None)"

text \<open>
  The constructor, given \<open>process.env.HF_TOKEN\<close>, the home directory and the time. Its only
  check is that a credential is present. It ends by starting \<open>loadPersistentCache\<close>, which
  is asynchronous: the constructor returns with the cache still empty and the load, modelled
  below as a step of its own, arrives later. The cache is built from \<open>max\<close> and \<open>ttl\<close> alone:
  no \<open>dispose\<close> handler is passed.
\<close>

definition HuggingFaceProvider ::
  "string option \<Rightarrow> string \<Rightarrow> int \<Rightarrow> provider_config \<Rightarrow> js_error + hf_provider" where
  "HuggingFaceProvider env_hf_token homedir now config =
     (let key = js_or (cfg_apiKey config) env_hf_token in
      if \<not> truthy key
      then Inl (Error ''HuggingFace API key not found. Set HF_TOKEN environment variable.'')
      else Inr (base_provider.extend (BaseProvider ''huggingface'' now)
                  (hf_provider.fields
                     (show_name key)
                     ''https://api-inference.huggingface.co/models''
                     (show_name (js_or (cfg_cacheDir config)
                                   (Some (homedir @ ''/.cache/claude-enhancer''))))
                     (LRUCache 1000 (1000 * 60 * 60 * 24))
                     \<lparr>hits = 0, misses = 0, diskReads = 0, diskWrites = 0\<rparr>)))"

text \<open>
  \<open>initialize()\<close>: the credential's shape is validated here, then the cache directory is
  created (\<open>mkdir\<close> with \<open>recursive\<close>, taken to succeed).
\<close>

definition initialize ::
  "'x hf_provider_scheme \<Rightarrow> 'b world \<Rightarrow> (js_error + bool) \<times> 'b world" where
  "initialize p w =
     (if \<not> startsWith (apiKey p) ''hf_'' \<or> length (apiKey p) < 20
      then (Inl (Error ''Invalid HuggingFace API key format''), w)
      else (Inr True, w\<lparr>cache_dir_exists := True\<rparr>))"

text \<open>\<open>getCacheKey(prompt, model, options)\<close>; \<open>substring(0, 100)\<close> is \<open>take 100\<close>.\<close>

definition getCacheKey :: "string \<Rightarrow> string option \<Rightarrow> options \<Rightarrow> cache_key" where
  "getCacheKey prompt mdl opts =
     Json \<lparr>kp_prompt = take 100 prompt, kp_model = mdl,
           kp_temperature = num_or (temperature opts) (7 / 10),
           kp_maxTokens = maxTokens opts\<rparr>"

text \<open>
  \<open>savePersistentCache()\<close> at time \<open>now\<close>: the file is rewritten from the entries in memory,
  each stamped \<open>now + 24h\<close>; the object \<open>cacheData\<close> gets its properties in the order of
  \<open>cache.entries()\<close>. Writing fails when the cache directory does not exist; the failure is
  logged and swallowed. The call never rejects.
\<close>

definition savePersistentCache ::
  "int \<Rightarrow> 'x hf_provider_scheme \<Rightarrow> 'b world
     \<Rightarrow> 'x hf_provider_scheme \<times> 'b world" where
  "savePersistentCache now p w =
     (let cacheData = map (\<lambda>(key, v). (key, \<lparr>entry_value = v,
                                                 expires = now + 24 * 60 * 60 * 1000\<rparr>))
                        (cache_items now (cache p))
      in if cache_dir_exists w
         then (p\<lparr>cacheStats := (cacheStats p)\<lparr>diskWrites := diskWrites (cacheStats p) + 1\<rparr>\<rparr>,
               w\<lparr>cache_file := Some (CacheData cacheData)\<rparr>)
         else (p, w))"

text \<open>
  The loop of \<open>loadPersistentCache\<close> over \<open>Object.entries(cacheData)\<close>, with the count
  \<open>loaded\<close>. Reading \<open>entry.expires\<close> of a \<open>null\<close> entry throws a \<open>TypeError\<close>, which
  ends the loop with the cache as the entries before it left it; on an entry without
  \<open>expires\<close> the comparison \<open>undefined > now\<close> is false.
\<close>

fun load_entries ::
  "int \<Rightarrow> (cache_key \<times> file_entry) list \<Rightarrow> cache_key lru_cache \<Rightarrow> nat
     \<Rightarrow> (js_error + nat) \<times> cache_key lru_cache" where
  "load_entries now [] c loaded = (Inr loaded, c)"
| "load_entries now ((key, NullEntry) # rest) c loaded = (Inl TypeError, c)"
| "load_entries now ((key, NoExpiry) # rest) c loaded = load_entries now rest c loaded"
| "load_entries now ((key, Entry entry) # rest) c loaded =
     (if expires entry > now
      then load_entries now rest (snd (cache_set key (entry_value entry) now c)) (loaded + 1)
      else load_entries now rest c loaded)"

text \<open>
  The \<open>try\<close> block of \<open>loadPersistentCache\<close>, with the provider as it leaves it: reading a
  missing file and parsing a corrupt one throw before anything is loaded; the loop may
  throw part-way, after it has put entries into the cache; \<open>diskReads\<close> is counted only
  when the loop has run to its end.
\<close>

definition loadPersistentCache_try ::
  "int \<Rightarrow> 'x hf_provider_scheme \<Rightarrow> 'b world
     \<Rightarrow> (js_error + unit) \<times> 'x hf_provider_scheme" where
  "loadPersistentCache_try now p w =
     (case cache_file w of
        None \<Rightarrow> (Inl (JsError ''ENOENT: no such file or directory'' (Some ''ENOENT'') None), p)
      | Some Corrupt \<Rightarrow> (Inl (Error ''SyntaxError''), p)
      | Some (Parsed cacheData) \<Rightarrow>
          (case load_entries now (object_entries cacheData) (cache p) 0 of
             (Inl error, c) \<Rightarrow> (Inl error, p\<lparr>cache := c\<rparr>)
           | (Inr loaded, c) \<Rightarrow>
               (Inr (),
                p\<lparr>cache := c,
                  cacheStats := (cacheStats p)\<lparr>diskReads := diskReads (cacheStats p) + 1\<rparr>\<rparr>)))"

text \<open>
  \<open>loadPersistentCache()\<close> with its empty \<open>catch\<close>: how the returned promise settles, and
  the provider afterwards.
\<close>

definition loadPersistentCache ::
  "int \<Rightarrow> 'x hf_provider_scheme \<Rightarrow> 'b world
     \<Rightarrow> (js_error + unit) \<times> 'x hf_provider_scheme" where
  "loadPersistentCache now p w =
     (case loadPersistentCache_try now p w of
        (Inl error, p') \<Rightarrow> (Inr (), p')
      | (Inr u, p') \<Rightarrow> (Inr (), p'))"

text \<open>The \<open>catch\<close> of \<open>complete\<close>: what is rethrown for an error caught in its \<open>try\<close>.\<close>

definition hf_rethrow :: "js_error \<Rightarrow> js_error" where
  "hf_rethrow error =
     (if includes_str (message error) ''Rate limit''
      then Error ''Rate limit exceeded. Please wait before retrying.''
      else Error (''HuggingFace API error: '' @ formatError error))"

text \<open>
  The request that \<open>complete\<close> sends: \<open>requestBody\<close> posted to the model's URL with the
  credential as bearer token. \<open>max_new_tokens\<close> is \<open>options.maxTokens || model.maxTokens\<close>,
  and the URL is \<open>`${this.baseUrl}/${model.id}`\<close>, which ends in \<open>undefined\<close> when the
  looked-up object has no \<open>id\<close>.
\<close>

definition inference_request :: "string \<Rightarrow> string \<Rightarrow> hf_model \<Rightarrow> string \<Rightarrow> options \<Rightarrow> http_request" where
  "inference_request base key mdl prompt opts =
     (let requestBody =
            \<lparr>inputs = prompt,
             max_new_tokens = (case num_or_null (maxTokens opts) of
                                 Some n \<Rightarrow> Some n
                               | None \<Rightarrow> model_maxTokens mdl),
             inf_temperature = num_or (temperature opts) (7 / 10),
             inf_top_p = num_or (top_p opts) (9 / 10),
             return_full_text = False\<rparr>
      in \<lparr>http_method = ''POST'', url = base @ ''/'' @ show_name (model_id mdl),
          authorization = Some (''Bearer '' @ key),
          body = InferenceBody requestBody\<rparr>)"

text \<open>
  \<open>complete(prompt, options)\<close> at time \<open>now\<close>. Nothing in it calls \<open>checkRateLimits\<close> or
  \<open>initialize\<close>. \<open>savePersistentCache\<close> is started without being awaited; its write is
  issued before \<open>complete\<close> goes on, so it is modelled in sequence. A response body that
  parses but has no \<open>[0].generated_text\<close> gives the empty text. The cache was built
  without a disposal handler, so of \<open>cache.set\<close> only the new cache is kept: an entry it
  evicts is dropped.
\<close>

definition complete_hf ::
  "'b server \<Rightarrow> int \<Rightarrow> string \<Rightarrow> options \<Rightarrow> 'x hf_provider_scheme \<Rightarrow> 'b world
     \<Rightarrow> (js_error + string) \<times> 'x hf_provider_scheme \<times> 'b world" where
  "complete_hf server now prompt opts p w =
     (let tier = show_name (js_or (modelTier opts) (Some ''balanced'')) in
      case models tier of
        None \<Rightarrow>
          (Inl (Error (''Unknown model tier: '' @ tier @ ''. Use '' @ [CHR 0x27] @ ''fast''
                  @ [CHR 0x27] @ '', '' @ [CHR 0x27] @ ''balanced'' @ [CHR 0x27] @ '', or ''
                  @ [CHR 0x27] @ ''deep'' @ [CHR 0x27])), p, w)
      | Some mdl \<Rightarrow>
          (let cacheKey = getCacheKey prompt (model_id mdl) opts in
           case cache_get cacheKey now (cache p) of
             (cached, c1) \<Rightarrow>
               (let p1 = p\<lparr>cache := c1\<rparr> in
                if truthy cached \<and> \<not> noCache opts
                then (Inr (show_name cached),
                      p1\<lparr>cacheStats := (cacheStats p1)\<lparr>hits := hits (cacheStats p1) + 1\<rparr>\<rparr>, w)
                else
                  (let p2 = p1\<lparr>cacheStats := (cacheStats p1)\<lparr>misses := misses (cacheStats p1) + 1\<rparr>\<rparr>
                   in case fetch server
                             (inference_request (hf_baseUrl p2) (apiKey p2) mdl prompt opts) w of
                        (Inl error, w1) \<Rightarrow> (Inl (hf_rethrow error), p2, w1)
                      | (Inr response, w1) \<Rightarrow>
                          if \<not> ok response
                          then (case payload response of
                                  Unparsable \<Rightarrow> (Inl (hf_rethrow TypeError), p2, w1)
                                | HFErrorBody e \<Rightarrow>
                                    (Inl (hf_rethrow (Error (show_name
                                       (js_or e (Some (''API error: ''
                                                        @ show_nat (http_status response))))))),
                                     p2, w1)
                                | _ \<Rightarrow>
                                    (Inl (hf_rethrow (Error (''API error: ''
                                                        @ show_nat (http_status response)))),
                                     p2, w1))
                          else (case payload response of
                                  Unparsable \<Rightarrow> (Inl (hf_rethrow TypeError), p2, w1)
                                | other \<Rightarrow>
                                    (let generatedText =
                                           (case other of
                                              HFGenerated g \<Rightarrow> show_name (js_or g (Some []))
                                            | _ \<Rightarrow> []);
                                         p3 = p2\<lparr>cache := snd (cache_set cacheKey generatedText now
                                                                  (cache p2))\<rparr>
                                     in case savePersistentCache now p3 w1 of
                                          (p4, w2) \<Rightarrow>
                                            (Inr generatedText,
                                             trackUsage (estimateTokens prompt
                                                           + estimateTokens generatedText) p4,
                                             w2)))))))"

text \<open>
  \<open>clearCache()\<close>: memory and statistics are reset and the file is unlinked; a missing
  file is not an error.
\<close>

definition clearCache ::
  "'x hf_provider_scheme \<Rightarrow> 'b world \<Rightarrow> 'x hf_provider_scheme \<times> 'b world" where
  "clearCache p w =
     (p\<lparr>cache := cache_clear (cache p),
        cacheStats := \<lparr>hits = 0, misses = 0, diskReads = 0, diskWrites = 0\<rparr>\<rparr>,
      w\<lparr>cache_file := None\<rparr>)"

section \<open>The registry's constructor (registry.js)\<close>

text \<open>
  The providers that the registry holds are objects of the two classes that
  \<open>registry.js\<close> imports. \<open>new OllamaProvider(config)\<close> and
  \<open>new HuggingFaceProvider(config)\<close> read the process environment and the clock; the
  former cannot throw, the latter throws without a credential.
\<close>

datatype provider = Ollama ollama_provider | HuggingFace hf_provider

record environment =
  OLLAMA_BASE_URL :: "string option"
  OLLAMA_DEFAULT_MODEL :: "string option"
  HF_TOKEN :: "string option"
  os_homedir :: string

definition provider_name :: "provider \<Rightarrow> string" where
  "provider_name p = (case p of Ollama local \<Rightarrow> name local | HuggingFace hosted \<Rightarrow> name hosted)"

definition new_OllamaProvider :: "environment \<Rightarrow> int \<Rightarrow> provider_config \<Rightarrow> js_error + provider" where
  "new_OllamaProvider env now config =
     Inr (Ollama (OllamaProvider (OLLAMA_BASE_URL env) (OLLAMA_DEFAULT_MODEL env) now config))"

definition new_HuggingFaceProvider ::
  "environment \<Rightarrow> int \<Rightarrow> provider_config \<Rightarrow> js_error + provider" where
  "new_HuggingFaceProvider env now config =
     (case HuggingFaceProvider (HF_TOKEN env) (os_homedir env) now config of
        Inl error \<Rightarrow> Inl error
      | Inr p \<Rightarrow> Inr (HuggingFace p))"

text \<open>
  \<open>initializeProviders()\<close> registers the two classes with the default \<open>config = {}\<close>. It is
  declared \<open>async\<close> but awaits nothing, so the constructor, which calls it last, returns
  with both registrations done: \<open>ollama\<close> is always registered and is the default, and
  \<open>huggingface\<close> is registered when \<open>HF_TOKEN\<close> is set.
\<close>

definition initializeProviders :: "environment \<Rightarrow> int \<Rightarrow> provider registry \<Rightarrow> provider registry" where
  "initializeProviders env now r =
     registerProvider ''huggingface'' (new_HuggingFaceProvider env now) no_config
       (registerProvider ''ollama'' (new_OllamaProvider env now) no_config r)"

definition ProviderRegistry :: "environment \<Rightarrow> int \<Rightarrow> provider registry" where
  "ProviderRegistry env now = initializeProviders env now empty_registry"

section \<open>The legacy enhancer (ai-enhancer.js)\<close>

text \<open>
  Of the class \<open>AIEnhancer\<close>, which talks to the same inference API and which the hosted
  provider supersedes, the checks that open its constructor ("Security: Validate token
  format"), with the token it then stores. A token is a string or absent.
\<close>

definition AIEnhancer_token :: "string option \<Rightarrow> js_error + string" where
  "AIEnhancer_token hfToken =
     (if \<not> truthy hfToken
      then Inl (Error ''Invalid or missing Hugging Face token'')
      else if \<not> startsWith (show_name hfToken) ''hf_'' \<or> length (show_name hfToken) < 20
      then Inl (Error (''Invalid Hugging Face token format. Token must start with ''
                         @ [CHR 0x22] @ ''hf_'' @ [CHR 0x22]
                         @ '' and be at least 20 characters long''))
      else Inr (show_name hfToken))"

section \<open>Scenarios\<close>

text \<open>
  The registry scenario of the specification: providers "alpha" and "beta" are registered
  and "alpha" is made the default; the operation fails on "alpha" with a refused connection
  and returns \<open>OK-\<close> and the provider's name on any other provider. The scenario speaks of
  these two providers alone, so they are registered into a registry without the built-in
  ones. The provider handles are the names themselves, and the state is the list of
  providers the operation has been applied to.
\<close>

definition scenario_operation :: "(string, string list, string) operation" where
  "scenario_operation provider s =
     (case provider of
        None \<Rightarrow> (Inl TypeError, s)
      | Some p \<Rightarrow>
          if p = ''alpha''
          then (Inl (JsError ''connect ECONNREFUSED'' (Some ''ECONNREFUSED'') None), s @ [p])
          else (Inr (''OK-'' @ p), s @ [p]))"

definition scenario_registry :: "string registry" where
  "scenario_registry =
     run_calls [RegisterProvider ''alpha'' (\<lambda>c. Inr c) ''alpha'',
                RegisterProvider ''beta'' (\<lambda>c. Inr c) ''beta'',
                SetDefaultProvider ''alpha''] empty_registry"

text \<open>A registry whose only provider is "alpha".\<close>

definition alpha_registry :: "string registry" where
  "alpha_registry = run_calls [RegisterProvider ''alpha'' (\<lambda>c. Inr c) ''alpha''] empty_registry"

text \<open>
  The registry as \<open>new ProviderRegistry()\<close> builds it at time 0 in an environment that
  sets none of the variables: it holds \<open>ollama\<close>, which is the default. An operation that
  fails on every provider with a refused connection and records the name of the provider
  it was applied to.
\<close>

definition plain_environment :: environment where
  "plain_environment =
     \<lparr>OLLAMA_BASE_URL = None, OLLAMA_DEFAULT_MODEL = None, HF_TOKEN = None, os_homedir = ''/home/u''\<rparr>"

definition built_registry :: "provider registry" where
  "built_registry = ProviderRegistry plain_environment 0"

definition refused_operation :: "(provider, string list, string) operation" where
  "refused_operation provider s =
     (case provider of
        None \<Rightarrow> (Inl TypeError, s)
      | Some p \<Rightarrow>
          (Inl (JsError ''connect ECONNREFUSED'' (Some ''ECONNREFUSED'') None),
           s @ [provider_name p]))"

text \<open>A constructor that throws, as the hosted provider's does without a credential.\<close>

definition failing_constructor :: "string \<Rightarrow> js_error + string" where
  "failing_constructor config = Inl (Error ''HuggingFace API key not found.'')"

text \<open>
  A base provider whose counters were last reset at time 0 and have counted three requests
  and ten tokens since.
\<close>

definition stale_provider :: base_provider where
  "stale_provider =
     (BaseProvider ''ollama'' 0)\<lparr>usage := \<lparr>requests = 3, tokens = 10, lastReset = 0\<rparr>\<rparr>"

text \<open>
  The hosted provider as its constructor builds it at time 0 in the home directory
  \<open>/home/u\<close> from the credential \<open>k\<close>, and two configurations: a credential of the wrong
  shape and one of the right shape.
\<close>

definition hf_provider_with_key :: "string \<Rightarrow> hf_provider" where
  "hf_provider_with_key k =
     \<lparr>name = ''huggingface'',
      rateLimits = \<lparr>requestsPerHour = 1000, requestsPerMinute = 60, tokensPerMinute = 10000\<rparr>,
      usage = \<lparr>requests = 0, tokens = 0, lastReset = 0\<rparr>,
      apiKey = k,
      hf_baseUrl = ''https://api-inference.huggingface.co/models'',
      cacheDir = ''/home/u/.cache/claude-enhancer'',
      cache = \<lparr>cache_max = 1000, cache_ttl = 86400000, cache_entries = []\<rparr>,
      cacheStats = \<lparr>hits = 0, misses = 0, diskReads = 0, diskWrites = 0\<rparr>\<rparr>"

definition short_key_config :: provider_config where
  "short_key_config = no_config\<lparr>cfg_apiKey := Some ''abc''\<rparr>"

definition valid_key_config :: provider_config where
  "valid_key_config = no_config\<lparr>cfg_apiKey := Some ''hf_0123456789abcdefghij''\<rparr>"

text \<open>
  An inference backend that answers every request with a generated text, and a world in
  which nothing has been sent yet and the cache directory exists without a cache file.
\<close>

definition inference_server :: "unit server" where
  "inference_server req b =
     (Inr \<lparr>ok = True, http_status = 200, payload = HFGenerated (Some ''Improved prompt'')\<rparr>, b)"

definition world0 :: "unit world" where
  "world0 = \<lparr>net_log = [], backend = (), cache_dir_exists = True, cache_file = None\<rparr>"

text \<open>The hosted provider with a well-formed credential and its hourly budget used up.\<close>

definition exhausted_hf_provider :: hf_provider where
  "exhausted_hf_provider =
     (hf_provider_with_key ''hf_0123456789abcdefghij'')
       \<lparr>usage := \<lparr>requests = 1000, tokens = 0, lastReset = 0\<rparr>\<rparr>"

text \<open>
  A local backend whose state is the list of installed models: it lists them, installs a
  model on a pull, and answers a generate request with a text. The world starts with
  \<open>mistral:7b\<close> installed.
\<close>

definition ollama_server :: "string list server" where
  "ollama_server req installed =
     (case body req of
        NoBody \<Rightarrow> (Inr \<lparr>ok = True, http_status = 200, payload = Tags installed\<rparr>, installed)
      | PullBody m \<Rightarrow>
          (Inr \<lparr>ok = True, http_status = 200, payload = Text ''success''\<rparr>, installed @ [m])
      | GenerateBody g \<Rightarrow>
          (Inr \<lparr>ok = True, http_status = 200, payload = Generated (Some ''Enhanced'')\<rparr>, installed)
      | InferenceBody i \<Rightarrow> (Inl (Error ''not a request of the local backend''), installed))"

definition ollama_world :: "string list world" where
  "ollama_world =
     \<lparr>net_log = [], backend = [''mistral:7b''], cache_dir_exists = True, cache_file = None\<rparr>"

definition tags_request :: http_request where
  "tags_request =
     \<lparr>http_method = ''GET'', url = ''http://localhost:11434/api/tags'', authorization = None,
      body = NoBody\<rparr>"

text \<open>The local provider as its constructor builds it at time 0 from an empty configuration.\<close>

definition ollama_default :: ollama_provider where
  "ollama_default =
     \<lparr>name = ''ollama'',
      rateLimits = \<lparr>requestsPerHour = 10000, requestsPerMinute = 1000, tokensPerMinute = 100000\<rparr>,
      usage = \<lparr>requests = 0, tokens = 0, lastReset = 0\<rparr>,
      baseUrl = ''http://localhost:11434'',
      defaultModel = ''llama3.2:1b'',
      timeout = 120000,
      availableModels = None\<rparr>"

definition exhausted_ollama :: ollama_provider where
  "exhausted_ollama = ollama_default\<lparr>usage := \<lparr>requests = 10000, tokens = 0, lastReset = 0\<rparr>\<rparr>"

text \<open>Options naming a model that is not installed, without and with permission to pull.\<close>

definition no_pull :: options where
  "no_pull = no_options\<lparr>model := Some ''codellama:7b'', autoPull := Some False\<rparr>"

definition may_pull :: options where
  "may_pull = no_options\<lparr>model := Some ''codellama:7b''\<rparr>"

text \<open>
  For the statements about the cache file: one insertion of a file entry into the cache
  as \<open>loadPersistentCache\<close> makes it, the entries of a file that have not expired at a
  given time, the records of a list of file entries that stand before its first \<open>null\<close>
  entry, and the (key, value) pairs of the records that the cache file of a world holds.
\<close>

definition insert_step ::
  "int \<Rightarrow> cache_key lru_cache \<Rightarrow> cache_key \<times> disk_entry \<Rightarrow> cache_key lru_cache" where
  "insert_step now c ke = snd (cache_set (fst ke) (entry_value (snd ke)) now c)"

definition unexpired :: "int \<Rightarrow> (cache_key \<times> disk_entry) list \<Rightarrow> (cache_key \<times> disk_entry) list" where
  "unexpired now es = filter (\<lambda>ke. now < expires (snd ke)) es"

fun records_before_null :: "(cache_key \<times> file_entry) list \<Rightarrow> (cache_key \<times> disk_entry) list" where
  "records_before_null [] = []"
| "records_before_null ((key, NullEntry) # rest) = []"
| "records_before_null ((key, NoExpiry) # rest) = records_before_null rest"
| "records_before_null ((key, Entry entry) # rest) = (key, entry) # records_before_null rest"

fun file_records :: "(cache_key \<times> file_entry) list \<Rightarrow> (cache_key \<times> disk_entry) list" where
  "file_records [] = []"
| "file_records ((key, Entry entry) # rest) = (key, entry) # file_records rest"
| "file_records ((key, other) # rest) = file_records rest"

definition disk_pairs :: "'b world \<Rightarrow> (cache_key \<times> string) list" where
  "disk_pairs w =
     (case cache_file w of
        Some (Parsed props) \<Rightarrow> map (\<lambda>ke. (fst ke, entry_value (snd ke))) (file_records props)
      | _ \<Rightarrow> [])"

text \<open>
  A freshly constructed hosted provider, and worlds whose cache file holds three entries
  (one long expired, one valid, one that expires at time 100 exactly), holds 1001 valid
  entries, or is corrupt.
\<close>

definition fresh_provider :: hf_provider where
  "fresh_provider = hf_provider_with_key ''hf_0123456789abcdefghij''"

definition small_file :: "(cache_key \<times> disk_entry) list" where
  "small_file =
     [(Raw ''old'', \<lparr>entry_value = ''stale answer'', expires = 50\<rparr>),
      (Raw ''new'', \<lparr>entry_value = ''fresh answer'', expires = 200\<rparr>),
      (Raw ''edge'', \<lparr>entry_value = ''expiring now'', expires = 100\<rparr>)]"

definition small_world :: "unit world" where
  "small_world = world0\<lparr>cache_file := Some (CacheData small_file)\<rparr>"

definition corrupt_world :: "unit world" where
  "corrupt_world = world0\<lparr>cache_file := Some Corrupt\<rparr>"

text \<open>
  Two files that the program did not write. In the first the entry between two valid
  records is \<open>null\<close>. The second mixes keys that are array indices with others, and has
  an entry without \<open>expires\<close> and a \<open>null\<close> entry; all its records are valid at time 100.
\<close>

definition damaged_file :: "(cache_key \<times> file_entry) list" where
  "damaged_file =
     [(Raw ''a'', Entry \<lparr>entry_value = ''first answer'', expires = 200\<rparr>),
      (Raw ''b'', NullEntry),
      (Raw ''c'', Entry \<lparr>entry_value = ''third answer'', expires = 200\<rparr>)]"

definition damaged_world :: "unit world" where
  "damaged_world = world0\<lparr>cache_file := Some (Parsed damaged_file)\<rparr>"

definition mixed_file :: "(cache_key \<times> file_entry) list" where
  "mixed_file =
     [(Raw ''b'', Entry \<lparr>entry_value = ''beta'', expires = 200\<rparr>),
      (Raw ''10'', Entry \<lparr>entry_value = ''ten'', expires = 200\<rparr>),
      (Raw ''9'', NoExpiry),
      (Raw ''2'', Entry \<lparr>entry_value = ''two'', expires = 200\<rparr>),
      (Raw ''z'', NullEntry),
      (Raw ''c'', Entry \<lparr>entry_value = ''gamma'', expires = 200\<rparr>)]"

definition mixed_world :: "unit world" where
  "mixed_world = world0\<lparr>cache_file := Some (Parsed mixed_file)\<rparr>"



text \<open>
  An inference backend that answers with an empty generated text, and prompts that share
  their first 100 characters (one hundred times \<open>a\<close>) and differ after them.
\<close>

definition empty_text_server :: "unit server" where
  "empty_text_server req b =
     (Inr \<lparr>ok = True, http_status = 200, payload = HFGenerated (Some [])\<rparr>, b)"

definition long_prompt :: "string \<Rightarrow> string" where
  "long_prompt suffix = replicate 100 CHR ''a'' @ suffix"

text \<open>
  The provider and the world after a first \<open>complete\<close> for the prompt ending in \<open>1\<close>, at
  time 5 with default options, against the backend that generates a text and against the
  one that generates the empty text.
\<close>

definition first_provider :: hf_provider where
  "first_provider =
     fst (snd (complete_hf inference_server 5 (long_prompt ''1'') no_options fresh_provider world0))"

definition first_world :: "unit world" where
  "first_world =
     snd (snd (complete_hf inference_server 5 (long_prompt ''1'') no_options fresh_provider world0))"

definition empty_first_provider :: hf_provider where
  "empty_first_provider =
     fst (snd (complete_hf empty_text_server 5 (long_prompt ''1'') no_options fresh_provider world0))"

definition empty_first_world :: "unit world" where
  "empty_first_world =
     snd (snd (complete_hf empty_text_server 5 (long_prompt ''1'') no_options fresh_provider world0))"

text \<open>
  For the statements about a later call: what the cache of a provider holds under the key
  that \<open>complete\<close> computes for a prompt and options, namely the text and the time it was
  stored (nothing when the tier is unknown or the key is not in the cache).
\<close>

definition cached_entry ::
  "string \<Rightarrow> options \<Rightarrow> 'x hf_provider_scheme \<Rightarrow> (string \<times> int) option" where
  "cached_entry prompt opts p =
     (case models (show_name (js_or (modelTier opts) (Some ''balanced''))) of
        None \<Rightarrow> None
      | Some mdl \<Rightarrow> map_of (cache_entries (cache p)) (getCacheKey prompt (model_id mdl) opts))"

text \<open>
  What may happen between the first call and the next one for the colliding prompt: a
  call for another prompt, at time 6, or \<open>clearCache()\<close>.
\<close>

definition later_provider :: hf_provider where
  "later_provider =
     fst (snd (complete_hf inference_server 6 ''hello'' no_options first_provider first_world))"

definition later_world :: "unit world" where
  "later_world =
     snd (snd (complete_hf inference_server 6 ''hello'' no_options first_provider first_world))"

definition cleared_provider :: hf_provider where
  "cleared_provider = fst (clearCache first_provider first_world)"

definition cleared_world :: "unit world" where
  "cleared_world = snd (clearCache first_provider first_world)"

text \<open>
  A hosted provider whose cache is full. Its 1000 entries were stored at time 0 for the
  prompt \<open>q\<close> under \<open>maxTokens\<close> 1 to 1000 (\<open>question_key\<close> is the cache key of such a
  call); the least recently used of them is the one under \<open>lru_key\<close>. The cache file of
  the world holds them all, as the last \<open>savePersistentCache\<close> left it. \<open>hello_key\<close> is the
  cache key of the prompt \<open>hello\<close> under default options.
\<close>

definition question_key :: "nat \<Rightarrow> cache_key" where
  "question_key i =
     getCacheKey ''q'' (Some ''mistralai/Mixtral-8x7B-Instruct-v0.1'')
       (no_options\<lparr>maxTokens := Some (int i + 1)\<rparr>)"

definition full_entries :: "(cache_key \<times> string \<times> int) list" where
  "full_entries = map (\<lambda>i. (question_key i, ''v'', 0)) [0..<1000]"

definition full_provider :: hf_provider where
  "full_provider =
     fresh_provider\<lparr>cache := \<lparr>cache_max = 1000, cache_ttl = 86400000, cache_entries = full_entries\<rparr>\<rparr>"

definition full_world :: "unit world" where
  "full_world =
     world0\<lparr>cache_file :=
              Some (CacheData (map (\<lambda>e. (fst e, \<lparr>entry_value = fst (snd e), expires = 86400000\<rparr>))
                                 full_entries))\<rparr>"

definition lru_key :: cache_key where
  "lru_key = question_key 999"

definition hello_key :: cache_key where
  "hello_key = getCacheKey ''hello'' (Some ''mistralai/Mixtral-8x7B-Instruct-v0.1'') no_options"

section \<open>Properties of the registry\<close>

lemma map_of_map_set: "map_of (map_set n v m) k = (if k = n then Some v else map_of m k)"
  by (induction m) auto

lemma map_has_map_set: "map_has k (map_set n v m) = (k = n \<or> map_has k m)"
  by (simp add: map_has_def map_of_map_set)

lemma registerProvider_default_registered:
  "default_registered r \<Longrightarrow> default_registered (registerProvider nm ProviderClass config r)"
  by (auto simp: default_registered_def registerProvider_def Let_def map_has_map_set
           split: sum.splits option.splits)

lemma setDefaultProvider_default_registered:
  "default_registered r \<Longrightarrow> default_registered (snd (setDefaultProvider nm r))"
  by (auto simp: default_registered_def setDefaultProvider_def split: option.splits)

lemma run_calls_default_registered:
  "default_registered r \<Longrightarrow> default_registered (run_calls calls r)"
proof (induction calls arbitrary: r)
  case Nil
  then show ?case by simp
next
  case (Cons c cs)
  then show ?case
    by (cases c)
       (simp_all add: registerProvider_default_registered setDefaultProvider_default_registered)
qed

lemma empty_registry_default_registered: "default_registered empty_registry"
  by (simp add: default_registered_def empty_registry_def)

text \<open>
  The registry that the constructor returns holds \<open>ollama\<close> as its first provider and as
  its default, whatever the environment.
\<close>

lemma ProviderRegistry_ollama:
  "\<exists>local rest. providers (ProviderRegistry env now) = (''ollama'', Ollama local) # rest"
  "defaultProvider (ProviderRegistry env now) = Some ''ollama''"
  by (auto simp: ProviderRegistry_def initializeProviders_def registerProvider_def
        new_OllamaProvider_def new_HuggingFaceProvider_def empty_registry_def truthy_def Let_def
        split: sum.splits)

text \<open>
  The invariant of the registry: in every state that calls of \<open>registerProvider\<close> and
  \<open>setDefaultProvider\<close> reach from the registry that the constructor returns, the default
  is the name of a registered provider. A constructor that throws leaves the registry
  unchanged, and \<open>setDefaultProvider\<close> with a name that is not registered throws and
  changes nothing.
\<close>

lemma ProviderRegistry_default_registered:
  "default_registered (run_calls calls (ProviderRegistry env now))"
  unfolding ProviderRegistry_def initializeProviders_def
  by (intro run_calls_default_registered registerProvider_default_registered
        empty_registry_default_registered)

lemma registerProvider_constructor_throws:
  "ProviderClass config = Inl e \<Longrightarrow> registerProvider nm ProviderClass config r = r"
  by (simp add: registerProvider_def)

lemma setDefaultProvider_not_registered:
  "\<not> map_has nm (providers r) \<Longrightarrow>
     setDefaultProvider nm r
       = (Inl (Error (''Provider '' @ [CHR 0x27] @ nm @ [CHR 0x27] @ '' not found'')), r)"
  by (simp add: setDefaultProvider_def)

lemma built_registry_eq:
  "built_registry
     = \<lparr>providers = [(''ollama'', Ollama ollama_default)], defaultProvider = Some ''ollama''\<rparr>"
  by (simp add: built_registry_def ProviderRegistry_def initializeProviders_def
        registerProvider_def new_OllamaProvider_def new_HuggingFaceProvider_def
        HuggingFaceProvider_def OllamaProvider_def BaseProvider_def plain_environment_def
        no_config_def empty_registry_def ollama_default_def js_or_def truthy_def num_or_def
        base_provider.extend_def ollama_provider.fields_def Let_def)

lemma new_OllamaProvider_plain:
  "new_OllamaProvider plain_environment 0 no_config = Inr (Ollama ollama_default)"
  by (simp add: new_OllamaProvider_def OllamaProvider_def BaseProvider_def plain_environment_def
        no_config_def ollama_default_def js_or_def truthy_def num_or_def
        base_provider.extend_def ollama_provider.fields_def)

text \<open>
  C8 at its failing input. The registry is the one that the constructor returns, with
  \<open>ollama\<close> as its default. A provider is registered under the empty string and made the
  default by \<open>setDefaultProvider\<close>, which succeeds. The next registration, of \<open>backup\<close>,
  then replaces the default although one was set: the test \<open>!this.defaultProvider\<close> takes
  the empty string for no default.
\<close>

theorem registerProvider_replaces_set_default:
  "built_registry
     = \<lparr>providers = [(''ollama'', Ollama ollama_default)], defaultProvider = Some ''ollama''\<rparr>
   \<and> run_calls [RegisterProvider [] (new_OllamaProvider plain_environment 0) no_config,
                 SetDefaultProvider []] built_registry
       = \<lparr>providers = [(''ollama'', Ollama ollama_default), ([], Ollama ollama_default)],
          defaultProvider = Some []\<rparr>
   \<and> fst (setDefaultProvider []
             (registerProvider [] (new_OllamaProvider plain_environment 0) no_config built_registry))
       = Inr ()
   \<and> run_calls [RegisterProvider [] (new_OllamaProvider plain_environment 0) no_config,
                 SetDefaultProvider [],
                 RegisterProvider ''backup'' (new_OllamaProvider plain_environment 0) no_config]
        built_registry
       = \<lparr>providers = [(''ollama'', Ollama ollama_default), ([], Ollama ollama_default),
                       (''backup'', Ollama ollama_default)],
          defaultProvider = Some ''backup''\<rparr>"
  by (simp add: built_registry_eq new_OllamaProvider_plain registerProvider_def
        setDefaultProvider_def map_has_def truthy_def)

lemma scenario_registry_eq:
  "scenario_registry =
     \<lparr>providers = [(''alpha'', ''alpha''), (''beta'', ''beta'')], defaultProvider = Some ''alpha''\<rparr>"
  by (simp add: scenario_registry_def empty_registry_def registerProvider_def
        setDefaultProvider_def map_has_def truthy_def)

lemma alpha_registry_eq:
  "alpha_registry = \<lparr>providers = [(''alpha'', ''alpha'')], defaultProvider = Some ''alpha''\<rparr>"
  by (simp add: alpha_registry_def empty_registry_def registerProvider_def truthy_def)

subsection \<open>Fallback\<close>

lemma try_others_first_success:
  "try_others operation preferred ps errors s =
     (case first_success (attempt operation r)
             (map (\<lambda>(n, provider). (n, Some provider))
                (filter (\<lambda>(n, provider). Some n \<noteq> preferred) ps)) s of
        (Inr result, s') \<Rightarrow> (Inr result, s')
      | (Inl es, s') \<Rightarrow> (Inl (Error (all_failed_message (errors @ es))), s'))"
proof (induction ps arbitrary: errors s)
  case Nil
  then show ?case by simp
next
  case (Cons a ps)
  obtain n provider where a: "a = (n, provider)" by (cases a)
  show ?case
    unfolding a
    by (simp add: Cons.IH attempt_def split: prod.splits sum.splits)
qed

lemma first_success_names:
  "first_success f xs s = (Inl errors, s') \<Longrightarrow> map fst errors = map fst xs"
proof (induction xs arbitrary: s errors)
  case Nil
  then show ?case by simp
next
  case (Cons x xs)
  then show ?case
    by (auto split: prod.splits sum.splits)
qed

lemma executeWithFallback_refines:
  assumes "js_or options_provider (defaultProvider r) \<noteq> Some []"
  shows "executeWithFallback operation options_provider r s =
     fallback_outcome (first_success (attempt operation r)
        (attempt_order (js_or options_provider (defaultProvider r)) r) s)"
proof (cases "js_or options_provider (defaultProvider r)")
  case None
  then show ?thesis
    by (simp add: executeWithFallback_def truthy_def attempt_order_def fallback_outcome_def
          try_others_first_success [where r = r] split: prod.splits sum.splits)
next
  case (Some p)
  with assms have p: "p \<noteq> []" by simp
  show ?thesis
    using p
    by (simp add: Some executeWithFallback_def truthy_def attempt_order_def fallback_outcome_def
          getProvider_def attempt_def show_name_def
          try_others_first_success [where r = r] split: prod.splits sum.splits option.splits)
qed

text \<open>
  C1, as amended. Let the preference be \<open>options.provider\<close> when that is a non-empty
  string and the current default otherwise. Provided the preference is not the empty
  string, \<open>executeWithFallback\<close> is the scan of the specification over \<open>attempt_order\<close>:
  the preferred name first (the operation applied to the provider registered under it, or,
  when no provider is registered under it, the lookup's error counted as its failure), then
  every other registered provider in registration order. The scan returns the first
  success at once, with the state as that application left it; it fails only when every
  attempt failed, and the error raised then carries one (name, message) entry per attempt,
  in the order of the attempts.
\<close>

theorem executeWithFallback_scan:
  assumes "js_or options_provider (defaultProvider r) \<noteq> Some []"
  shows "executeWithFallback operation options_provider r s =
           fallback_outcome (first_success (attempt operation r)
              (attempt_order (js_or options_provider (defaultProvider r)) r) s)
         \<and> (\<forall>e s'. executeWithFallback operation options_provider r s = (Inl e, s') \<longrightarrow>
              (\<exists>errors. e = Error (all_failed_message errors)
                 \<and> map fst errors
                     = map fst (attempt_order (js_or options_provider (defaultProvider r)) r)))"
proof -
  let ?order = "attempt_order (js_or options_provider (defaultProvider r)) r"
  have eq: "executeWithFallback operation options_provider r s =
              fallback_outcome (first_success (attempt operation r) ?order s)"
    using assms by (rule executeWithFallback_refines)
  have "\<exists>errors. e = Error (all_failed_message errors) \<and> map fst errors = map fst ?order"
    if "executeWithFallback operation options_provider r s = (Inl e, s')" for e s'
  proof (cases "first_success (attempt operation r) ?order s")
    case (Pair res s'')
    show ?thesis
    proof (cases res)
      case (Inl errors)
      with Pair that eq have "e = Error (all_failed_message errors)"
        by (simp add: fallback_outcome_def)
      moreover from Pair Inl have "map fst errors = map fst ?order"
        by (simp add: first_success_names)
      ultimately show ?thesis by blast
    next
      case (Inr v)
      with Pair that eq show ?thesis by (simp add: fallback_outcome_def)
    qed
  qed
  with eq show ?thesis by blast
qed

text \<open>
  The scenario of the specification: with "alpha" the default and failing, the result is
  "beta"'s, after the operation was applied to "alpha" and then to "beta". With "alpha"
  alone, the call fails and the error names "alpha".
\<close>

theorem executeWithFallback_scan_witness:
  "js_or None (defaultProvider scenario_registry) \<noteq> Some []
   \<and> executeWithFallback scenario_operation None scenario_registry []
       = (Inr ''OK-beta'', [''alpha'', ''beta''])
   \<and> js_or None (defaultProvider alpha_registry) \<noteq> Some []
   \<and> executeWithFallback scenario_operation None alpha_registry []
       = (Inl (Error (all_failed_message [(''alpha'', ''connect ECONNREFUSED'')])), [''alpha''])
   \<and> map fst [(''alpha'', ''connect ECONNREFUSED'')]
       = map fst (attempt_order (js_or None (defaultProvider alpha_registry)) alpha_registry)"
  using executeWithFallback_scan [of None scenario_registry scenario_operation "[]"]
        executeWithFallback_scan [of None alpha_registry scenario_operation "[]"]
  by (simp add: scenario_registry_eq alpha_registry_eq js_or_def truthy_def attempt_order_def
        attempt_def fallback_outcome_def scenario_operation_def)

text \<open>
  C1 as stated fails in two ways. With the unregistered preference "ghost" and "alpha"
  the only provider, the operation is first applied to "alpha", and the error raised
  carries two entries, one of them for "ghost", which is no provider; the same happens on
  the registry that the constructor returns, whose only provider is "ollama". With the
  default a provider registered under the empty string, the operation would succeed on
  that provider, the only one registered, yet it is never applied (the state stays empty)
  and the call fails with an empty list of failures.
\<close>

theorem executeWithFallback_preference_counterexample:
  "executeWithFallback scenario_operation (Some ''ghost'') alpha_registry []
     = (Inl (Error (all_failed_message
               [(''ghost'', ''Provider '' @ [CHR 0x27] @ ''ghost'' @ [CHR 0x27]
                             @ '' not found. Available providers: alpha''),
                (''alpha'', ''connect ECONNREFUSED'')])), [''alpha''])
   \<and> map_keys (providers alpha_registry) = [''alpha'']
   \<and> executeWithFallback refused_operation (Some ''ghost'') built_registry []
       = (Inl (Error (all_failed_message
                 [(''ghost'', ''Provider '' @ [CHR 0x27] @ ''ghost'' @ [CHR 0x27]
                               @ '' not found. Available providers: ollama''),
                  (''ollama'', ''connect ECONNREFUSED'')])), [''ollama''])
   \<and> map_keys (providers built_registry) = [''ollama'']
   \<and> executeWithFallback scenario_operation None
         (registerProvider [] (\<lambda>c. Inr c) ''gamma'' empty_registry) []
       = (Inl (Error (''All providers failed:'' @ [CHR 0x0A])), [])
   \<and> providers (registerProvider [] (\<lambda>c. Inr c) ''gamma'' empty_registry) = [([], ''gamma'')]
   \<and> scenario_operation (Some ''gamma'') [] = (Inr ''OK-gamma'', [''gamma''])"
  by (simp add: alpha_registry_eq built_registry_eq)
     (simp add: executeWithFallback_def empty_registry_def registerProvider_def js_or_def truthy_def
        all_failed_message_def scenario_operation_def refused_operation_def provider_name_def
        ollama_default_def getProvider_def not_found_message_def show_name_def map_keys_def
        Error_def)

section \<open>Properties of the base provider\<close>

text \<open>
  C7, as amended. \<open>trackUsage(tokenCount)\<close> adds one to the request counter and
  \<open>tokenCount\<close> to the token counter and leaves \<open>lastReset\<close> alone: it never resets. So the
  counters only grow under \<open>trackUsage\<close> (for a token count that is not negative). The reset
  belongs to \<open>checkRateLimits\<close>: called more than one hour (3600000 ms) after \<open>lastReset\<close>,
  it zeroes both counters and sets \<open>lastReset\<close> to the current time; called earlier, it
  leaves the counters as they are.
\<close>

theorem usage_counters_window:
  "usage (trackUsage tokenCount p)
     = \<lparr>requests = requests (usage p) + 1, tokens = tokens (usage p) + tokenCount,
        lastReset = lastReset (usage p)\<rparr>
   \<and> (0 \<le> tokenCount \<longrightarrow>
        requests (usage p) \<le> requests (usage (trackUsage tokenCount p))
        \<and> tokens (usage p) \<le> tokens (usage (trackUsage tokenCount p)))
   \<and> (now - lastReset (usage p) > 3600000 \<longrightarrow>
        usage (snd (checkRateLimits now p)) = \<lparr>requests = 0, tokens = 0, lastReset = now\<rparr>)
   \<and> (\<not> now - lastReset (usage p) > 3600000 \<longrightarrow>
        usage (snd (checkRateLimits now p)) = usage p)"
  by (simp add: trackUsage_def checkRateLimits_def Let_def)

theorem usage_counters_window_witness:
  "(0::int) \<le> 5
   \<and> usage (trackUsage 5 stale_provider) = \<lparr>requests = 4, tokens = 15, lastReset = 0\<rparr>
   \<and> (7200000::int) - lastReset (usage stale_provider) > 3600000
   \<and> usage (snd (checkRateLimits 7200000 stale_provider))
       = \<lparr>requests = 0, tokens = 0, lastReset = 7200000\<rparr>
   \<and> \<not> (1000::int) - lastReset (usage stale_provider) > 3600000
   \<and> usage (snd (checkRateLimits 1000 stale_provider))
       = \<lparr>requests = 3, tokens = 10, lastReset = 0\<rparr>"
  using usage_counters_window [of 5 stale_provider 7200000]
        usage_counters_window [of 5 stale_provider 1000]
  by (simp add: stale_provider_def BaseProvider_def)

text \<open>
  C7 as stated fails: two hours after the last reset, \<open>trackUsage(5)\<close> counts on from 3
  requests and 10 tokens and keeps \<open>lastReset\<close>; nothing is reset.
\<close>

theorem trackUsage_no_reset_counterexample:
  "(7200000::int) - lastReset (usage stale_provider) > 3600000
   \<and> usage (trackUsage 5 stale_provider) = \<lparr>requests = 4, tokens = 15, lastReset = 0\<rparr>"
  by (simp add: stale_provider_def BaseProvider_def trackUsage_def)

section \<open>Properties of the hosted provider's credential check\<close>

lemma HuggingFaceProvider_short_key:
  "HuggingFaceProvider None ''/home/u'' 0 short_key_config = Inr (hf_provider_with_key ''abc'')"
  by (simp add: HuggingFaceProvider_def short_key_config_def no_config_def js_or_def truthy_def
        show_name_def hf_provider_with_key_def BaseProvider_def LRUCache_def
        base_provider.extend_def hf_provider.fields_def Let_def)

lemma HuggingFaceProvider_valid_key:
  "HuggingFaceProvider None ''/home/u'' 0 valid_key_config
     = Inr (hf_provider_with_key ''hf_0123456789abcdefghij'')"
  by (simp add: HuggingFaceProvider_def valid_key_config_def no_config_def js_or_def truthy_def
        show_name_def hf_provider_with_key_def BaseProvider_def LRUCache_def
        base_provider.extend_def hf_provider.fields_def Let_def)

text \<open>
  The constructor throws exactly when no credential is configured (\<open>config.apiKey\<close> and
  \<open>HF_TOKEN\<close> both absent or empty); any other credential it stores as it is.
\<close>

lemma HuggingFaceProvider_no_credential:
  "\<not> truthy (js_or (cfg_apiKey config) env_hf_token) \<Longrightarrow>
     HuggingFaceProvider env_hf_token homedir now config
       = Inl (Error ''HuggingFace API key not found. Set HF_TOKEN environment variable.'')"
  by (simp add: HuggingFaceProvider_def)

lemma HuggingFaceProvider_any_credential:
  "truthy (js_or (cfg_apiKey config) env_hf_token) \<Longrightarrow>
     \<exists>p. HuggingFaceProvider env_hf_token homedir now config = Inr p
         \<and> apiKey p = show_name (js_or (cfg_apiKey config) env_hf_token)"
  by (simp add: HuggingFaceProvider_def Let_def base_provider.extend_def hf_provider.fields_def)

text \<open>
  The test of the credential's shape exists twice, and neither copy guards \<open>complete\<close>:
  the provider's own copy is in \<open>initialize()\<close>, which \<open>complete\<close> does not call, and the
  legacy enhancer has it where the specification puts it, in the constructor.
\<close>

lemma initialize_malformed_key:
  "\<not> startsWith (apiKey p) ''hf_'' \<or> length (apiKey p) < 20 \<Longrightarrow>
     initialize p w = (Inl (Error ''Invalid HuggingFace API key format''), w)"
  by (auto simp: initialize_def)

lemma AIEnhancer_token_malformed:
  "AIEnhancer_token (Some ''abc'')
     = Inl (Error (''Invalid Hugging Face token format. Token must start with ''
                     @ [CHR 0x22] @ ''hf_'' @ [CHR 0x22]
                     @ '' and be at least 20 characters long''))"
  by (simp add: AIEnhancer_token_def truthy_def show_name_def startsWith_def)

text \<open>
  C2 at its failing input. The configured credential is \<open>abc\<close>: it lacks the prefix and
  has three characters. The constructor does not throw; it returns a provider, and
  \<open>complete\<close> on that provider posts the prompt with the credential as bearer token.
\<close>

theorem HuggingFaceProvider_accepts_malformed_key:
  "HuggingFaceProvider None ''/home/u'' 0 short_key_config = Inr (hf_provider_with_key ''abc'')
   \<and> fst (complete_hf inference_server 5 ''hello'' no_options (hf_provider_with_key ''abc'') world0)
       = Inr ''Improved prompt''
   \<and> map authorization
        (net_log (snd (snd (complete_hf inference_server 5 ''hello'' no_options
                              (hf_provider_with_key ''abc'') world0))))
       = [Some ''Bearer abc'']"
  by (simp add: HuggingFaceProvider_short_key)
     (simp add: complete_hf_def inference_request_def hf_provider_with_key_def no_options_def world0_def
        inference_server_def fetch_def models_def js_or_def truthy_def show_name_def
        getCacheKey_def cache_get_def cache_set_def savePersistentCache_def cache_items_def
        trackUsage_def num_or_def Let_def)

section \<open>Properties of the rate-limit check\<close>

text \<open>
  The local provider checks first: once the hourly budget is used up, \<open>complete\<close> fails
  with the error of \<open>checkRateLimits\<close> and the world, with its request log, is unchanged.
  (The model is named by the options or by the provider's default, as it always is for a
  provider built by the constructor.)
\<close>

lemma complete_ollama_rate_limited:
  assumes "truthy (model opts) \<or> defaultModel p \<noteq> []"
      and "checkRateLimits now p = (Inl e, p1)"
  shows "complete_ollama server now prompt opts p w = (Inl e, p1, w)"
  using assms by (auto simp: complete_ollama_def)

text \<open>
  C3 at its failing input. The hosted provider has used its 1000 requests of the hour:
  \<open>checkRateLimits\<close> would throw, yet \<open>complete\<close> sends the request and returns the
  generated text, counting request 1001.
\<close>

theorem complete_hf_ignores_rate_limit:
  "fst (checkRateLimits 5 exhausted_hf_provider)
     = Inl (Error ''Rate limit exceeded: 1000 requests per hour'')
   \<and> fst (complete_hf inference_server 5 ''hello'' no_options exhausted_hf_provider world0)
       = Inr ''Improved prompt''
   \<and> length (net_log (snd (snd (complete_hf inference_server 5 ''hello'' no_options
                                   exhausted_hf_provider world0)))) = 1
   \<and> requests (usage (fst (snd (complete_hf inference_server 5 ''hello'' no_options
                                   exhausted_hf_provider world0)))) = 1001"
  by (simp add: checkRateLimits_def exhausted_hf_provider_def show_int_def show_nat.simps
        complete_hf_def inference_request_def hf_provider_with_key_def no_options_def world0_def
        inference_server_def fetch_def models_def js_or_def truthy_def show_name_def
        getCacheKey_def cache_get_def cache_set_def savePersistentCache_def cache_items_def
        trackUsage_def num_or_def Error_def Let_def)

section \<open>Properties of the local provider's pull decision\<close>

lemma checkRateLimits_baseUrl: "baseUrl (snd (checkRateLimits now p)) = baseUrl p"
  by (simp add: checkRateLimits_def Let_def)

lemma listModels_log:
  "listModels server p w = (res, w1) \<Longrightarrow>
     net_log w1 = net_log w @ [\<lparr>http_method = ''GET'', url = baseUrl p @ ''/api/tags'',
                                authorization = None, body = NoBody\<rparr>]"
  by (auto simp: listModels_def fetch_def split: prod.splits sum.splits if_splits payload.splits)

lemma pullModel_log:
  "pullModel server m p w = (res, w1) \<Longrightarrow>
     net_log w1 = net_log w @ [\<lparr>http_method = ''POST'', url = baseUrl p @ ''/api/pull'',
                                authorization = None, body = PullBody m\<rparr>]"
  by (auto simp: pullModel_def fetch_def split: prod.splits sum.splits if_splits)

lemma generate_log_prefix:
  "generate server m prompt opts p w = (res, p', w') \<Longrightarrow> \<exists>more. net_log w' = net_log w @ more"
  by (auto simp: generate_def fetch_def Let_def
           split: prod.splits sum.splits if_splits payload.splits option.splits)

text \<open>
  C6, as amended. Take a call to \<open>complete\<close> whose model is named by the options or by the
  provider's default. If the hourly budget is not used up (\<open>checkRateLimits\<close> passes) and
  the listing of installed models succeeds without that model, then: with
  \<open>autoPull = false\<close> the call throws \<open>Model ... not found. Use --pull to download it.\<close>
  and the listing is the only request it has sent, so nothing is pulled; with \<open>autoPull\<close>
  unset or true, the request after the listing is the pull of that model, and whatever
  else the call sends comes after it.
\<close>

theorem complete_ollama_absent_model:
  assumes named: "truthy (model opts) \<or> defaultModel p \<noteq> []"
      and budget: "checkRateLimits now p = (Inr (), p1)"
      and listed: "listModels server p1 w = (Inr ms, w1)"
      and absent: "(if truthy (model opts) then show_name (model opts) else defaultModel p) \<notin> set ms"
  shows "(autoPull opts = Some False \<longrightarrow>
            complete_ollama server now prompt opts p w
              = (Inl (Error (''Model ''
                   @ (if truthy (model opts) then show_name (model opts) else defaultModel p)
                   @ '' not found. Use --pull to download it.'')), p1, w1)
            \<and> net_log w1 = net_log w @ [\<lparr>http_method = ''GET'', url = baseUrl p @ ''/api/tags'',
                                          authorization = None, body = NoBody\<rparr>])
         \<and> (autoPull opts \<noteq> Some False \<longrightarrow>
            (\<exists>more. net_log (snd (snd (complete_ollama server now prompt opts p w)))
               = net_log w
                 @ [\<lparr>http_method = ''GET'', url = baseUrl p @ ''/api/tags'',
                     authorization = None, body = NoBody\<rparr>,
                    \<lparr>http_method = ''POST'', url = baseUrl p @ ''/api/pull'', authorization = None,
                     body = PullBody (if truthy (model opts) then show_name (model opts)
                                      else defaultModel p)\<rparr>]
                 @ more))"
proof -
  let ?m = "if truthy (model opts) then show_name (model opts) else defaultModel p"
  have url: "baseUrl p1 = baseUrl p"
    using budget checkRateLimits_baseUrl [of now p] by simp
  have log1: "net_log w1 = net_log w @ [\<lparr>http_method = ''GET'', url = baseUrl p @ ''/api/tags'',
                                          authorization = None, body = NoBody\<rparr>]"
    using listModels_log [OF listed] url by simp
  have no: "autoPull opts = Some False \<Longrightarrow>
      complete_ollama server now prompt opts p w
        = (Inl (Error (''Model '' @ ?m @ '' not found. Use --pull to download it.'')), p1, w1)"
    using named budget listed absent
    by (auto simp: complete_ollama_def Let_def)
  have yes: "\<exists>more. net_log (snd (snd (complete_ollama server now prompt opts p w)))
               = net_log w1 @ [\<lparr>http_method = ''POST'', url = baseUrl p @ ''/api/pull'',
                     authorization = None, body = PullBody ?m\<rparr>] @ more"
    if ap: "autoPull opts \<noteq> Some False"
  proof (cases "pullModel server ?m p1 w1")
    case (Pair res w2)
    have log2: "net_log w2 = net_log w1 @ [\<lparr>http_method = ''POST'', url = baseUrl p @ ''/api/pull'',
                     authorization = None, body = PullBody ?m\<rparr>]"
      using pullModel_log [OF Pair] url by simp
    show ?thesis
    proof (cases res)
      case (Inl e)
      with Pair named budget listed absent ap
      have "complete_ollama server now prompt opts p w = (Inl e, p1, w2)"
        by (auto simp: complete_ollama_def Let_def)
      with log2 show ?thesis by simp
    next
      case (Inr b)
      obtain r p' w' where g: "generate server ?m prompt opts p1 w2 = (r, p', w')"
        by (cases "generate server ?m prompt opts p1 w2") auto
      with Pair Inr named budget listed absent ap
      have "complete_ollama server now prompt opts p w = (r, p', w')"
        by (auto simp: complete_ollama_def Let_def)
      moreover from generate_log_prefix [OF g] obtain more where "net_log w' = net_log w2 @ more" ..
      ultimately show ?thesis using log2 by simp
    qed
  qed
  show ?thesis
    using no yes log1 by auto
qed

lemma checkRateLimits_ollama_default:
  "checkRateLimits 5 ollama_default = (Inr (), ollama_default)"
  by (simp add: checkRateLimits_def ollama_default_def Let_def)

lemma listModels_ollama_world:
  "listModels ollama_server ollama_default ollama_world
     = (Inr [''mistral:7b''], ollama_world\<lparr>net_log := [tags_request]\<rparr>)"
  by (simp add: listModels_def fetch_def ollama_server_def ollama_default_def ollama_world_def
        tags_request_def)

text \<open>
  With \<open>codellama:7b\<close> named and only \<open>mistral:7b\<close> installed: under \<open>autoPull = false\<close> the
  call throws after the listing alone; with \<open>autoPull\<close> unset the listing is followed by the
  pull.
\<close>

theorem complete_ollama_absent_model_witness:
  "(truthy (model no_pull) \<or> defaultModel ollama_default \<noteq> [])
   \<and> checkRateLimits 5 ollama_default = (Inr (), ollama_default)
   \<and> listModels ollama_server ollama_default ollama_world
       = (Inr [''mistral:7b''], ollama_world\<lparr>net_log := [tags_request]\<rparr>)
   \<and> ''codellama:7b'' \<notin> set [''mistral:7b'']
   \<and> autoPull no_pull = Some False
   \<and> complete_ollama ollama_server 5 ''hi'' no_pull ollama_default ollama_world
       = (Inl (Error ''Model codellama:7b not found. Use --pull to download it.''),
          ollama_default, ollama_world\<lparr>net_log := [tags_request]\<rparr>)
   \<and> autoPull may_pull \<noteq> Some False
   \<and> take 2 (net_log (snd (snd (complete_ollama ollama_server 5 ''hi'' may_pull
                                   ollama_default ollama_world))))
       = [tags_request,
          \<lparr>http_method = ''POST'', url = ''http://localhost:11434/api/pull'', authorization = None,
           body = PullBody ''codellama:7b''\<rparr>]"
  using complete_ollama_absent_model
          [of no_pull ollama_default 5 ollama_default ollama_server ollama_world
              "[''mistral:7b'']" "ollama_world\<lparr>net_log := [tags_request]\<rparr>" "''hi''"]
        complete_ollama_absent_model
          [of may_pull ollama_default 5 ollama_default ollama_server ollama_world
              "[''mistral:7b'']" "ollama_world\<lparr>net_log := [tags_request]\<rparr>" "''hi''"]
  by (simp add: checkRateLimits_ollama_default listModels_ollama_world)
     (auto simp: no_pull_def may_pull_def no_options_def truthy_def show_name_def
        ollama_default_def ollama_world_def tags_request_def)

text \<open>
  C6 as stated fails once the hourly budget is used up: the same call, with the model
  absent and \<open>autoPull = false\<close>, throws the rate-limit error, not the model-not-found one.
\<close>

theorem complete_ollama_rate_limit_first_counterexample:
  "complete_ollama ollama_server 5 ''hi'' no_pull exhausted_ollama ollama_world
     = (Inl (Error ''Rate limit exceeded: 10000 requests per hour''), exhausted_ollama, ollama_world)
   \<and> model no_pull = Some ''codellama:7b''
   \<and> autoPull no_pull = Some False
   \<and> ''codellama:7b'' \<notin> set (backend ollama_world)"
  by (simp add: complete_ollama_def checkRateLimits_def exhausted_ollama_def ollama_default_def
        no_pull_def no_options_def ollama_world_def truthy_def show_name_def show_int_def
        show_nat.simps Let_def)

section \<open>Properties of the cache and its file\<close>

text \<open>The order of \<open>Object.entries\<close> depends on the keys alone and rearranges the list.\<close>

lemma insort_key_map:
  "insort_key k (f x) (map f ys) = map f (insort_key (\<lambda>y. k (f y)) x ys)"
  by (induction ys) simp_all

lemma sort_key_map: "sort_key k (map f xs) = map f (sort_key (\<lambda>y. k (f y)) xs)"
  by (induction xs) (simp_all add: insort_key_map)

lemma object_entries_recorded: "object_entries (recorded rs) = recorded (object_entries rs)"
  by (simp add: object_entries_def recorded_def filter_map comp_def case_prod_beta sort_key_map)

lemma set_object_entries: "set (object_entries xs) = set xs"
  by (auto simp: object_entries_def)

lemma distinct_object_entries:
  assumes "distinct (map fst xs)"
  shows "distinct (map fst (object_entries xs))"
proof -
  from assms have d: "distinct xs" and i: "inj_on fst (set xs)"
    by (simp_all add: distinct_map)
  have "distinct (object_entries xs)"
    using d by (auto simp: object_entries_def)
  with i show ?thesis
    by (simp add: distinct_map set_object_entries)
qed

lemma object_entries_no_index:
  assumes "\<forall>p \<in> set xs. array_index (fst p) = None"
  shows "object_entries xs = xs"
proof -
  have "filter (\<lambda>p. array_index (fst p) \<noteq> None) xs = []"
    using assms by (simp add: filter_empty_conv)
  moreover have "filter (\<lambda>p. array_index (fst p) = None) xs = xs"
    using assms by (simp add: filter_id_conv)
  ultimately show ?thesis
    by (simp add: object_entries_def)
qed

lemma records_before_null_recorded: "records_before_null (recorded rs) = rs"
  by (induction rs) (auto simp: recorded_def)

lemma file_records_recorded: "file_records (recorded rs) = rs"
  by (induction rs) (auto simp: recorded_def)

lemma set_file_records: "set (file_records xs) = {(k, e). (k, Entry e) \<in> set xs}"
  by (induction xs rule: file_records.induct) auto

lemma distinct_file_records: "distinct (map fst xs) \<Longrightarrow> distinct (map fst (file_records xs))"
  by (induction xs rule: file_records.induct) (auto simp: set_file_records image_iff)

lemma records_before_null_no_null:
  "NullEntry \<notin> snd ` set xs \<Longrightarrow> records_before_null xs = file_records xs"
  by (induction xs rule: records_before_null.induct) (auto simp: image_iff)


text \<open>Two lists without repetition that hold the same elements keep equally many under a filter.\<close>

lemma length_filter_same_set:
  assumes "distinct xs" and "distinct ys" and "set xs = set ys"
  shows "length (filter P xs) = length (filter P ys)"
proof -
  have "length (filter P xs) = card (set (filter P xs))"
    using assms(1) by (simp only: distinct_card [OF distinct_filter])
  also have "set (filter P xs) = set (filter P ys)"
    using assms(3) by simp
  also have "card (set (filter P ys)) = length (filter P ys)"
    using assms(2) by (simp only: distinct_card [OF distinct_filter])
  finally show ?thesis .
qed


text \<open>What the loop leaves in the cache, and what it counts on a file of records.\<close>

lemma load_entries_cache:
  "snd (load_entries now props c n)
     = foldl (insert_step now) c (unexpired now (records_before_null props))"
  by (induction now props c n rule: load_entries.induct)
     (simp_all add: insert_step_def unexpired_def)


text \<open>Storing under a key that is not in the cache: the new entry goes in front and the
  cache is cut to its capacity.\<close>

lemma cache_set_fresh:
  assumes "k \<notin> fst ` set (cache_entries c)" and "length (cache_entries c) \<le> cache_max c"
  shows "snd (cache_set k v now c)
           = c\<lparr>cache_entries := take (cache_max c) ((k, v, now) # cache_entries c)\<rparr>"
proof -
  have f: "filter (\<lambda>e. fst e \<noteq> k) (cache_entries c) = cache_entries c"
    using assms(1) by (auto simp: filter_id_conv)
  show ?thesis
  proof (cases "length (cache_entries c) = cache_max c")
    case True
    then show ?thesis
      by (simp add: cache_set_def Let_def f butlast_conv_take del: butlast.simps)
  next
    case False
    with assms(2) have "length (cache_entries c) < cache_max c" by simp
    then show ?thesis
      by (simp add: cache_set_def Let_def f)
  qed
qed

lemma take_append_take: "take n (xs @ take n ys) = take n (xs @ ys)"
  by (simp add: min_def)

lemma foldl_insert_fresh:
  assumes "distinct (map fst es)"
      and "fst ` set es \<inter> fst ` set (cache_entries c) = {}"
      and "length (cache_entries c) \<le> cache_max c"
  shows "foldl (insert_step now) c es
           = c\<lparr>cache_entries :=
                 take (cache_max c)
                   (rev (map (\<lambda>ke. (fst ke, entry_value (snd ke), now)) es) @ cache_entries c)\<rparr>"
  using assms
proof (induction es arbitrary: c)
  case Nil
  then show ?case by simp
next
  case (Cons x es)
  let ?c' = "c\<lparr>cache_entries :=
                 take (cache_max c) ((fst x, entry_value (snd x), now) # cache_entries c)\<rparr>"
  have fresh: "fst x \<notin> fst ` set (cache_entries c)"
    using Cons.prems(2) by auto
  have step: "insert_step now c x = ?c'"
    using cache_set_fresh [OF fresh Cons.prems(3)] by (simp add: insert_step_def)
  have keys: "fst ` set (cache_entries ?c') \<subseteq> insert (fst x) (fst ` set (cache_entries c))"
    by (auto dest!: in_set_takeD)
  have d: "distinct (map fst es)" and nx: "fst x \<notin> fst ` set es"
    using Cons.prems(1) by auto
  have p2: "fst ` set es \<inter> fst ` set (cache_entries c) = {}"
    using Cons.prems(2) by auto
  have "fst ` set es \<inter> insert (fst x) (fst ` set (cache_entries c)) = {}"
    using nx p2 by simp
  moreover have "fst ` set es \<inter> fst ` set (cache_entries ?c')
                  \<subseteq> fst ` set es \<inter> insert (fst x) (fst ` set (cache_entries c))"
    using keys by (rule Int_mono [OF subset_refl])
  ultimately have disj: "fst ` set es \<inter> fst ` set (cache_entries ?c') = {}"
    by simp
  have len: "length (cache_entries ?c') \<le> cache_max ?c'"
    by simp
  show ?case
    using Cons.IH [OF d disj len]
    by (simp add: step take_append_take)
qed

lemma loadPersistentCache_settles: "fst (loadPersistentCache now p w) = Inr ()"
  by (simp add: loadPersistentCache_def split: prod.splits sum.splits)

lemma loadPersistentCache_unreadable:
  "cache_file w = None \<or> cache_file w = Some Corrupt \<Longrightarrow> snd (loadPersistentCache now p w) = p"
  by (auto simp: loadPersistentCache_def loadPersistentCache_try_def)

lemma loadPersistentCache_cache:
  "cache_file w = Some (Parsed props) \<Longrightarrow>
     cache (snd (loadPersistentCache now p w))
       = foldl (insert_step now) (cache p)
           (unexpired now (records_before_null (object_entries props)))"
  using load_entries_cache [of now "object_entries props" "cache p" 0]
  by (auto simp: loadPersistentCache_def loadPersistentCache_try_def
           split: prod.splits sum.splits)

lemma loadPersistentCache_records:
  "cache_file w = Some (CacheData es) \<Longrightarrow>
     cache (snd (loadPersistentCache now p w))
       = foldl (insert_step now) (cache p) (unexpired now (object_entries es))"
  by (simp add: CacheData_def loadPersistentCache_cache object_entries_recorded
        records_before_null_recorded)

lemma unexpired_distinct: "distinct (map fst es) \<Longrightarrow> distinct (map fst (unexpired now es))"
  by (simp add: unexpired_def distinct_map_filter)

text \<open>
  A file without a \<open>null\<close> entry, loaded into an empty cache: the cache holds the file's
  unexpired records, the last one listed first, cut to the capacity.
\<close>

lemma loadPersistentCache_empty_cache:
  assumes "cache_file w = Some (Parsed props)" and "distinct (map fst props)"
      and "NullEntry \<notin> snd ` set props" and "cache_entries (cache p) = []"
  shows "cache (snd (loadPersistentCache now p w))
           = (cache p)\<lparr>cache_entries :=
                 take (cache_max (cache p))
                   (rev (map (\<lambda>ke. (fst ke, entry_value (snd ke), now))
                           (unexpired now (file_records (object_entries props)))))\<rparr>"
proof -
  have n: "NullEntry \<notin> snd ` set (object_entries props)"
    using assms(3) by (simp add: set_object_entries)
  have d: "distinct (map fst (unexpired now (file_records (object_entries props))))"
    by (intro unexpired_distinct distinct_file_records distinct_object_entries assms(2))
  show ?thesis
    using foldl_insert_fresh [OF d, where c = "cache p" and now = now] assms(4)
    by (simp add: loadPersistentCache_cache [OF assms(1)] records_before_null_no_null [OF n])
qed



lemma cache_items_all_valid:
  assumes "\<forall>e \<in> set es. now < snd (snd e) + ttl"
  shows "cache_items now \<lparr>cache_max = m, cache_ttl = ttl, cache_entries = es\<rparr>
           = map (\<lambda>e. (fst e, fst (snd e))) es"
proof -
  have "filter (\<lambda>(k, v, storedAt). now < storedAt + ttl) es = es"
    using assms by (auto simp: filter_id_conv)
  then show ?thesis
    by (simp add: cache_items_def case_prod_beta)
qed


lemma file_records_object_entries:
  assumes "distinct (map fst props)"
  shows "length (unexpired now (file_records (object_entries props)))
           = length (unexpired now (file_records props))"
  unfolding unexpired_def
proof (rule length_filter_same_set)
  have "distinct (map fst (file_records (object_entries props)))"
    by (intro distinct_file_records distinct_object_entries assms)
  then show "distinct (file_records (object_entries props))"
    by (simp add: distinct_map)
  have "distinct (map fst (file_records props))"
    by (intro distinct_file_records assms)
  then show "distinct (file_records props)"
    by (simp add: distinct_map)
  show "set (file_records (object_entries props)) = set (file_records props)"
    by (simp add: set_file_records set_object_entries)
qed

text \<open>
  C9, as amended. \<open>loadPersistentCache\<close> never rejects, whatever the state of the disk.
  When the file is missing or does not parse, the provider is left as it was (its cache is
  empty at startup). When the file parses, its entries are gone through in the order of
  \<open>Object.entries\<close> up to the first \<open>null\<close> entry, at which the loop throws inside the
  \<open>try\<close>: the cache afterwards is the cache before with exactly the records ahead of that
  entry whose \<open>expires\<close> lies strictly after \<open>now\<close> inserted, in that order, and the entries
  behind it are not looked at. For a file of records that is every unexpired entry of the
  file. For a file without a \<open>null\<close> entry (keys distinct, as in any parsed object) loaded
  into the empty cache of a starting provider, with no more unexpired records than the
  cache can hold, the entries in memory are exactly the file's unexpired records.
\<close>

theorem loadPersistentCache_unexpired:
  "fst (loadPersistentCache now p w) = Inr ()
   \<and> (cache_file w = None \<or> cache_file w = Some Corrupt \<longrightarrow>
        snd (loadPersistentCache now p w) = p)
   \<and> (cache_file w = Some (Parsed props) \<longrightarrow>
        cache (snd (loadPersistentCache now p w))
          = foldl (insert_step now) (cache p)
              (unexpired now (records_before_null (object_entries props))))
   \<and> (cache_file w = Some (CacheData es) \<longrightarrow>
        cache (snd (loadPersistentCache now p w))
          = foldl (insert_step now) (cache p) (unexpired now (object_entries es)))
   \<and> (cache_file w = Some (Parsed props) \<and> NullEntry \<notin> snd ` set props
        \<and> distinct (map fst props) \<and> cache_entries (cache p) = []
        \<and> length (unexpired now (file_records props)) \<le> cache_max (cache p) \<longrightarrow>
        set (cache_entries (cache (snd (loadPersistentCache now p w))))
          = {(k, entry_value e, now) |k e. (k, Entry e) \<in> set props \<and> now < expires e})"
proof -
  have "set (cache_entries (cache (snd (loadPersistentCache now p w))))
          = {(k, entry_value e, now) |k e. (k, Entry e) \<in> set props \<and> now < expires e}"
    if f: "cache_file w = Some (Parsed props)" and n: "NullEntry \<notin> snd ` set props"
      and d: "distinct (map fst props)" and e: "cache_entries (cache p) = []"
      and l: "length (unexpired now (file_records props)) \<le> cache_max (cache p)"
  proof -
    have "cache_entries (cache (snd (loadPersistentCache now p w)))
            = rev (map (\<lambda>ke. (fst ke, entry_value (snd ke), now))
                     (unexpired now (file_records (object_entries props))))"
      using l by (simp add: loadPersistentCache_empty_cache [OF f d n e]
                    file_records_object_entries [OF d])
    moreover have "set (unexpired now (file_records (object_entries props)))
                     = {(k, e). (k, Entry e) \<in> set props \<and> now < expires e}"
      by (auto simp: unexpired_def set_file_records set_object_entries)
    ultimately show ?thesis
      by (force simp: image_iff)
  qed
  then show ?thesis
    using loadPersistentCache_settles [of now p w] loadPersistentCache_unreadable [of w now p]
      loadPersistentCache_cache [of w props now p] loadPersistentCache_records [of w es now p]
    by simp
qed

lemma object_entries_mixed_file:
  "object_entries mixed_file =
     [(Raw ''2'', Entry \<lparr>entry_value = ''two'', expires = 200\<rparr>),
      (Raw ''9'', NoExpiry),
      (Raw ''10'', Entry \<lparr>entry_value = ''ten'', expires = 200\<rparr>),
      (Raw ''b'', Entry \<lparr>entry_value = ''beta'', expires = 200\<rparr>),
      (Raw ''z'', NullEntry),
      (Raw ''c'', Entry \<lparr>entry_value = ''gamma'', expires = 200\<rparr>)]"
  by (simp add: object_entries_def mixed_file_def array_index_def digit_def index_or_zero_def)

lemma object_entries_small_file: "object_entries small_file = small_file"
  by (rule object_entries_no_index) (simp add: small_file_def array_index_def digit_def)

lemma loadPersistentCache_small_world_cache:
  "cache (snd (loadPersistentCache 100 fresh_provider small_world))
     = \<lparr>cache_max = 1000, cache_ttl = 86400000,
        cache_entries = [(Raw ''new'', ''fresh answer'', 100)]\<rparr>"
  by (simp add: loadPersistentCache_def loadPersistentCache_try_def small_world_def CacheData_def
        object_entries_recorded object_entries_small_file)
     (simp add: small_file_def recorded_def world0_def fresh_provider_def hf_provider_with_key_def
        cache_set_def Let_def)

lemma loadPersistentCache_small_world:
  "cache_entries (cache (snd (loadPersistentCache 100 fresh_provider small_world)))
     = [(Raw ''new'', ''fresh answer'', 100)]"
  by (simp add: loadPersistentCache_small_world_cache)

lemma loadPersistentCache_mixed_world:
  "cache_entries (cache (snd (loadPersistentCache 100 fresh_provider mixed_world)))
     = [(Raw ''b'', ''beta'', 100), (Raw ''10'', ''ten'', 100), (Raw ''2'', ''two'', 100)]"
  by (simp add: loadPersistentCache_def loadPersistentCache_try_def mixed_world_def
        object_entries_mixed_file world0_def fresh_provider_def hf_provider_with_key_def
        cache_set_def Let_def)

text \<open>
  At time 100, of the three records of the small file only the one expiring at 200 is
  loaded: the one expiring at 100 is not strictly in the future. A corrupt and a missing
  file leave the fresh provider as it is. Of the mixed file the records under \<open>2\<close>, \<open>10\<close>
  and \<open>b\<close> are loaded, in that order (the cache lists the latest first); the entry under
  \<open>9\<close> has no expiry, and the record under \<open>c\<close> stands behind the \<open>null\<close> entry.
\<close>

theorem loadPersistentCache_unexpired_witness:
  "cache_file corrupt_world = Some Corrupt
   \<and> snd (loadPersistentCache 100 fresh_provider corrupt_world) = fresh_provider
   \<and> cache_file world0 = None
   \<and> snd (loadPersistentCache 100 fresh_provider world0) = fresh_provider
   \<and> cache_file mixed_world = Some (Parsed mixed_file)
   \<and> cache_entries (cache (snd (loadPersistentCache 100 fresh_provider mixed_world)))
       = [(Raw ''b'', ''beta'', 100), (Raw ''10'', ''ten'', 100), (Raw ''2'', ''two'', 100)]
   \<and> cache_file small_world = Some (CacheData small_file)
   \<and> cache_file small_world = Some (Parsed (recorded small_file))
   \<and> NullEntry \<notin> snd ` set (recorded small_file)
   \<and> distinct (map fst (recorded small_file))
   \<and> cache_entries (cache fresh_provider) = []
   \<and> length (unexpired 100 (file_records (recorded small_file))) \<le> cache_max (cache fresh_provider)
   \<and> cache_entries (cache (snd (loadPersistentCache 100 fresh_provider small_world)))
       = [(Raw ''new'', ''fresh answer'', 100)]"
  using loadPersistentCache_unexpired [of 100 fresh_provider corrupt_world mixed_file small_file]
        loadPersistentCache_unexpired [of 100 fresh_provider world0 mixed_file small_file]
        loadPersistentCache_unexpired [of 100 fresh_provider mixed_world mixed_file small_file]
        loadPersistentCache_unexpired
          [of 100 fresh_provider small_world "recorded small_file" small_file]
  by (simp add: loadPersistentCache_small_world loadPersistentCache_mixed_world)
     (simp add: corrupt_world_def world0_def small_world_def mixed_world_def small_file_def
        unexpired_def CacheData_def recorded_def fresh_provider_def hf_provider_with_key_def)

text \<open>
  C9 as stated fails for a file that parses and holds a \<open>null\<close> entry: of two records
  that are both valid at time 100, the one behind the \<open>null\<close> entry is not loaded, so the
  cache holds neither exactly the unexpired entries nor nothing.
\<close>

theorem loadPersistentCache_null_entry_counterexample:
  "cache_file damaged_world = Some (Parsed damaged_file)
   \<and> (Raw ''a'', Entry \<lparr>entry_value = ''first answer'', expires = 200\<rparr>) \<in> set damaged_file
   \<and> (Raw ''c'', Entry \<lparr>entry_value = ''third answer'', expires = 200\<rparr>) \<in> set damaged_file
   \<and> (100::int) < 200
   \<and> fst (loadPersistentCache 100 fresh_provider damaged_world) = Inr ()
   \<and> cache_entries (cache (snd (loadPersistentCache 100 fresh_provider damaged_world)))
       = [(Raw ''a'', ''first answer'', 100)]"
  by (simp add: loadPersistentCache_def loadPersistentCache_try_def damaged_world_def
        damaged_file_def object_entries_def array_index_def digit_def world0_def
        fresh_provider_def hf_provider_with_key_def cache_set_def Let_def)











section \<open>Properties of the hosted provider's response cache\<close>

lemma cache_set_then_get:
  assumes "0 < cache_max c" and "now' < now + cache_ttl c"
  shows "cache_get k now' (snd (cache_set k v now c))
           = (Some v, snd (cache_set k v now c))"
proof -
  let ?rest = "filter (\<lambda>e. fst e \<noteq> k) (cache_entries c)"
  have nk: "filter (\<lambda>e. fst e \<noteq> k) ?rest = ?rest" by simp
  show ?thesis
  proof (cases "length ((k, v, now) # ?rest) > cache_max c")
    case True
    with assms(1) have ne: "?rest \<noteq> []" by auto
    have nb: "filter (\<lambda>e. fst e \<noteq> k) (butlast ?rest) = butlast ?rest"
      by (auto simp: filter_id_conv dest: in_set_butlastD)
    from True ne show ?thesis
      using assms(2) by (simp add: cache_set_def cache_get_def Let_def nb)
  next
    case False
    then show ?thesis
      using assms(2) by (simp add: cache_set_def cache_get_def Let_def)
  qed
qed

lemma cache_set_stored:
  assumes "0 < cache_max c"
  shows "map_of (cache_entries (snd (cache_set k v now c))) k = Some (v, now)"
proof (cases "length ((k, v, now) # filter (\<lambda>e. fst e \<noteq> k) (cache_entries c)) > cache_max c")
  case True
  with assms have "filter (\<lambda>e. fst e \<noteq> k) (cache_entries c) \<noteq> []" by auto
  with True show ?thesis
    by (simp add: cache_set_def Let_def)
next
  case False
  then show ?thesis
    by (simp add: cache_set_def Let_def)
qed

lemma cache_set_params:
  "cache_max (snd (cache_set k v now c)) = cache_max c"
  "cache_ttl (snd (cache_set k v now c)) = cache_ttl c"
  by (simp_all add: cache_set_def Let_def)

lemma cache_get_params:
  "cache_max (snd (cache_get k now c)) = cache_max c"
  "cache_ttl (snd (cache_get k now c)) = cache_ttl c"
  by (simp_all add: cache_get_def split: option.splits prod.splits)

lemma show_name_Some: "show_name (Some x) = x"
  by (simp add: show_name_def)

lemma show_name_or_empty: "show_name (js_or (Some t) (Some [])) = t"
  by (simp add: show_name_def js_or_def truthy_def)

text \<open>
  A call that returned a text and sent a request has stored that text under the prompt's
  key.
\<close>

lemma complete_hf_generated_cache:
  assumes "complete_hf server now prompt opts p w = (Inr text, p1, w1)"
      and "net_log w1 \<noteq> net_log w"
  shows "\<exists>mdl. models (show_name (js_or (modelTier opts) (Some ''balanced''))) = Some mdl
           \<and> cache p1 = snd (cache_set (getCacheKey prompt (model_id mdl) opts) text now
                               (snd (cache_get (getCacheKey prompt (model_id mdl) opts) now (cache p))))"
  using assms
  by (auto simp: complete_hf_def Let_def trackUsage_def savePersistentCache_def
           split: option.splits prod.splits if_splits sum.splits payload.splits)

text \<open>
  A call without \<open>noCache\<close> that finds a non-empty text under its key, stored less than
  the TTL ago, returns that text and leaves the world as it is.
\<close>

lemma complete_hf_hit:
  assumes "cached_entry prompt opts p = Some (text, stored)"
      and "now < stored + cache_ttl (cache p)" and "text \<noteq> []" and "\<not> noCache opts"
  shows "fst (complete_hf server now prompt opts p w) = Inr text"
    and "snd (snd (complete_hf server now prompt opts p w)) = w"
  using assms
  by (auto simp: cached_entry_def complete_hf_def cache_get_def Let_def truthy_def show_name_Some
           split: option.splits)

lemma cached_entry_same_prefix:
  "take 100 prompt2 = take 100 prompt1 \<Longrightarrow> cached_entry prompt2 opts p = cached_entry prompt1 opts p"
  by (simp add: cached_entry_def getCacheKey_def split: option.splits)

text \<open>
  C10, as amended. The cache key is made of the first 100 characters of the prompt, the
  model id, the temperature and \<open>maxTokens\<close>, so prompts that agree on their first 100
  characters have the same key. If a call for the first prompt succeeded by generating (it
  sent a request) a non-empty text, that text is in the cache under the key, with the time
  of the call. A call for the second prompt with the same options and without \<open>noCache\<close>,
  made within the TTL on a provider whose cache still holds that entry, returns the text
  and leaves the world as it was: no request is sent, whatever the backend would answer.
  The provider as the first call left it is such a provider, so this covers the call that
  follows the first one at once. (The cache holds at least one entry.)
\<close>

theorem prefix_collision_hit:
  assumes first: "complete_hf server t1 prompt1 opts p w = (Inr text, p1, w1)"
      and generated: "net_log w1 \<noteq> net_log w"
      and nonempty: "text \<noteq> []"
      and same_prefix: "take 100 prompt2 = take 100 prompt1"
      and cacheable: "\<not> noCache opts"
      and room: "0 < cache_max (cache p)"
  shows "getCacheKey prompt2 m opts = getCacheKey prompt1 m opts
         \<and> cached_entry prompt1 opts p1 = Some (text, t1)
         \<and> cache_ttl (cache p1) = cache_ttl (cache p)
         \<and> (cached_entry prompt1 opts p2 = Some (text, t1) \<and> t2 < t1 + cache_ttl (cache p2) \<longrightarrow>
               fst (complete_hf server' t2 prompt2 opts p2 w2) = Inr text
               \<and> snd (snd (complete_hf server' t2 prompt2 opts p2 w2)) = w2)
         \<and> (t2 < t1 + cache_ttl (cache p) \<longrightarrow>
               fst (complete_hf server' t2 prompt2 opts p1 w1) = Inr text
               \<and> snd (snd (complete_hf server' t2 prompt2 opts p1 w1)) = w1)"
proof -
  have key: "getCacheKey prompt2 m opts = getCacheKey prompt1 m opts" for m
    using same_prefix by (simp add: getCacheKey_def)
  from complete_hf_generated_cache [OF first generated]
  obtain mdl where tier: "models (show_name (js_or (modelTier opts) (Some ''balanced''))) = Some mdl"
    and c: "cache p1 = snd (cache_set (getCacheKey prompt1 (model_id mdl) opts) text t1
                              (snd (cache_get (getCacheKey prompt1 (model_id mdl) opts) t1 (cache p))))"
    by blast
  have stored: "cached_entry prompt1 opts p1 = Some (text, t1)"
    unfolding cached_entry_def tier c
    by (simp add: cache_set_stored cache_get_params room)
  have ttl: "cache_ttl (cache p1) = cache_ttl (cache p)"
    unfolding c by (simp add: cache_set_params cache_get_params)
  have later: "fst (complete_hf server' t2 prompt2 opts p2 w2) = Inr text
               \<and> snd (snd (complete_hf server' t2 prompt2 opts p2 w2)) = w2"
    if "cached_entry prompt1 opts p2 = Some (text, t1)" and "t2 < t1 + cache_ttl (cache p2)"
    using complete_hf_hit [of prompt2 opts p2 "text" t1 t2 server' w2] that nonempty cacheable
    by (simp add: cached_entry_same_prefix [OF same_prefix])
  have at_once: "fst (complete_hf server' t2 prompt2 opts p1 w1) = Inr text
               \<and> snd (snd (complete_hf server' t2 prompt2 opts p1 w1)) = w1"
    if "t2 < t1 + cache_ttl (cache p)"
    using complete_hf_hit [of prompt2 opts p1 "text" t1 t2 server' w1] that nonempty cacheable
      stored ttl
    by (simp add: cached_entry_same_prefix [OF same_prefix])
  show ?thesis
    using key stored ttl later at_once by simp
qed

lemmas eval_defs =
  complete_hf_def inference_request_def fresh_provider_def hf_provider_with_key_def
  no_options_def world0_def inference_server_def empty_text_server_def fetch_def models_def
  js_or_def truthy_def show_name_def getCacheKey_def cache_get_def cache_set_def
  savePersistentCache_def cache_items_def trackUsage_def num_or_def num_or_null_def Let_def
  long_prompt_def

lemma first_call_result:
  "complete_hf inference_server 5 (long_prompt ''1'') no_options fresh_provider world0
     = (Inr ''Improved prompt'', first_provider, first_world)"
  by (simp add: first_provider_def first_world_def) (simp add: eval_defs)

lemma first_world_log: "length (net_log first_world) = 1"
  by (simp add: first_world_def) (simp add: eval_defs)

lemma hello_not_long: "''hello'' \<noteq> replicate 100 CHR ''a''"
proof
  assume "''hello'' = replicate 100 CHR ''a''"
  then have "length ''hello'' = length (replicate 100 CHR ''a'')"
    by (rule arg_cong)
  then show False by simp
qed

lemma later_entry:
  "cached_entry (long_prompt ''1'') no_options later_provider = Some (''Improved prompt'', 5)"
  by (simp add: later_provider_def first_provider_def first_world_def cached_entry_def)
     (simp add: eval_defs hello_not_long hello_not_long [symmetric])

lemma later_world_log: "length (net_log later_world) = 2"
  by (simp add: later_world_def first_provider_def first_world_def)
     (simp add: eval_defs hello_not_long hello_not_long [symmetric])

lemma later_ttl: "cache_ttl (cache later_provider) = 86400000"
  by (simp add: later_provider_def first_provider_def first_world_def)
     (simp add: eval_defs hello_not_long hello_not_long [symmetric])

text \<open>
  The second prompt differs from the first after 100 characters. Asked at time 6, right
  after the first call, and asked at time 7, after a call for another prompt has come in
  between, it gets the text generated for the first prompt, and the backend (which would
  answer with another text) is not contacted.
\<close>

theorem prefix_collision_hit_witness:
  "complete_hf inference_server 5 (long_prompt ''1'') no_options fresh_provider world0
     = (Inr ''Improved prompt'', first_provider, first_world)
   \<and> net_log first_world \<noteq> net_log world0
   \<and> long_prompt ''2'' \<noteq> long_prompt ''1''
   \<and> take 100 (long_prompt ''2'') = take 100 (long_prompt ''1'')
   \<and> \<not> noCache no_options
   \<and> 0 < cache_max (cache fresh_provider)
   \<and> (6::int) < 5 + cache_ttl (cache fresh_provider)
   \<and> fst (complete_hf empty_text_server 6 (long_prompt ''2'') no_options first_provider first_world)
       = Inr ''Improved prompt''
   \<and> snd (snd (complete_hf empty_text_server 6 (long_prompt ''2'') no_options first_provider
                  first_world)) = first_world
   \<and> cached_entry (long_prompt ''1'') no_options later_provider = Some (''Improved prompt'', 5)
   \<and> (7::int) < 5 + cache_ttl (cache later_provider)
   \<and> length (net_log later_world) = 2
   \<and> fst (complete_hf empty_text_server 7 (long_prompt ''2'') no_options later_provider later_world)
       = Inr ''Improved prompt''
   \<and> snd (snd (complete_hf empty_text_server 7 (long_prompt ''2'') no_options later_provider
                  later_world)) = later_world"
proof -
  have log: "net_log first_world \<noteq> net_log world0"
    using first_world_log by (auto simp: world0_def)
  have side: "long_prompt ''2'' \<noteq> long_prompt ''1''"
    "take 100 (long_prompt ''2'') = take 100 (long_prompt ''1'')"
    "\<not> noCache no_options" "0 < cache_max (cache fresh_provider)"
    "(6::int) < 5 + cache_ttl (cache fresh_provider)"
    "(7::int) < 5 + cache_ttl (cache later_provider)"
    by (simp_all add: long_prompt_def no_options_def fresh_provider_def hf_provider_with_key_def
          later_ttl)
  show ?thesis
    using prefix_collision_hit
            [OF first_call_result log _ side(2-4), where server' = empty_text_server
               and ?t2.0 = 6 and ?p2.0 = later_provider and ?w2.0 = later_world]
          prefix_collision_hit
            [OF first_call_result log _ side(2-4), where server' = empty_text_server
               and ?t2.0 = 7 and ?p2.0 = later_provider and ?w2.0 = later_world]
          first_call_result log side later_entry later_world_log
    by simp
qed

text \<open>
  C10 as stated fails in two ways. When the first call generated the empty text, the
  call succeeds and stores it, but the lookup tests the cached value for truth, so the
  second call within the TTL sends a request of its own and returns a new generation.
  And when \<open>clearCache()\<close> comes between the two calls, the second call, still within the
  TTL of the first, which had generated a text, finds nothing: it sends a second request
  and returns what the backend answers then.
\<close>

theorem colliding_prompt_not_served_counterexample:
  "fst (complete_hf empty_text_server 5 (long_prompt ''1'') no_options fresh_provider world0) = Inr []
   \<and> length (net_log empty_first_world) = 1
   \<and> long_prompt ''2'' \<noteq> long_prompt ''1''
   \<and> take 100 (long_prompt ''2'') = take 100 (long_prompt ''1'')
   \<and> \<not> noCache no_options
   \<and> fst (complete_hf inference_server 6 (long_prompt ''2'') no_options empty_first_provider
             empty_first_world) = Inr ''Improved prompt''
   \<and> length (net_log (snd (snd (complete_hf inference_server 6 (long_prompt ''2'') no_options
                                   empty_first_provider empty_first_world)))) = 2
   \<and> fst (complete_hf inference_server 5 (long_prompt ''1'') no_options fresh_provider world0)
       = Inr ''Improved prompt''
   \<and> length (net_log first_world) = 1
   \<and> (6::int) < 5 + cache_ttl (cache cleared_provider)
   \<and> fst (complete_hf empty_text_server 6 (long_prompt ''2'') no_options cleared_provider
             cleared_world) = Inr []
   \<and> length (net_log (snd (snd (complete_hf empty_text_server 6 (long_prompt ''2'') no_options
                                   cleared_provider cleared_world)))) = 2"
  by (simp add: empty_first_provider_def empty_first_world_def cleared_provider_def
        cleared_world_def clearCache_def cache_clear_def first_provider_def first_world_def)
     (simp add: eval_defs)

subsection \<open>Eviction\<close>

text \<open>
  A call that misses the cache and gets a generated text from the backend stores it and
  rewrites the cache file from the entries then in memory.
\<close>

lemma complete_hf_miss:
  assumes tier: "models (show_name (js_or (modelTier opts) (Some ''balanced''))) = Some mdl"
      and absent: "map_of (cache_entries (cache p)) (getCacheKey prompt (model_id mdl) opts) = None"
      and resp: "server (inference_request (hf_baseUrl p) (apiKey p) mdl prompt opts) (backend w)
                   = (Inr \<lparr>ok = True, http_status = st, payload = HFGenerated (Some reply)\<rparr>, b')"
      and dir: "cache_dir_exists w"
  shows "fst (complete_hf server now prompt opts p w) = Inr reply"
    and "cache (fst (snd (complete_hf server now prompt opts p w)))
           = snd (cache_set (getCacheKey prompt (model_id mdl) opts) reply now (cache p))"
    and "cache_file (snd (snd (complete_hf server now prompt opts p w)))
           = Some (CacheData (map (\<lambda>(k, v). (k, \<lparr>entry_value = v, expires = now + 86400000\<rparr>))
                (cache_items now
                   (snd (cache_set (getCacheKey prompt (model_id mdl) opts) reply now (cache p))))))"
  using absent resp dir
  by (simp_all add: complete_hf_def tier Let_def cache_get_def fetch_def truthy_def
        show_name_or_empty savePersistentCache_def trackUsage_def)

lemma full_entries_length: "length full_entries = 1000"
  by (simp add: full_entries_def)

lemma full_entries_keys: "fst ` set full_entries = question_key ` {0..<1000}"
  by (simp add: full_entries_def image_image)

lemma question_key_eq: "question_key i = question_key j \<longleftrightarrow> i = j"
  by (simp add: question_key_def getCacheKey_def)

lemma question_key_not_hello: "question_key i \<noteq> hello_key"
  by (simp add: question_key_def hello_key_def getCacheKey_def)

lemma full_entries_last: "last full_entries = (lru_key, ''v'', 0)"
proof -
  have "full_entries \<noteq> []" by (simp add: full_entries_def)
  then have "last full_entries = full_entries ! 999"
    by (simp add: last_conv_nth full_entries_length)
  then show ?thesis
    by (simp add: full_entries_def lru_key_def)
qed

lemma hello_key_fresh: "hello_key \<notin> fst ` set full_entries"
proof
  assume "hello_key \<in> fst ` set full_entries"
  then obtain i where "hello_key = question_key i"
    by (auto simp: full_entries_keys)
  then show False
    using question_key_not_hello [of i] by simp
qed

lemma take_999_full:
  "take 999 full_entries = map (\<lambda>i. (question_key i, ''v'', 0)) [0..<999]"
proof -
  have "take 999 [0..<1000] = [0..<999]" by simp
  then show ?thesis
    by (simp only: full_entries_def take_map)
qed

lemma full_set:
  "snd (cache_set hello_key reply 5 (cache full_provider))
     = \<lparr>cache_max = 1000, cache_ttl = 86400000,
        cache_entries = (hello_key, reply, 5) # map (\<lambda>i. (question_key i, ''v'', 0)) [0..<999]\<rparr>"
  using cache_set_fresh [of hello_key "cache full_provider" reply 5] hello_key_fresh
  by (simp add: full_provider_def full_entries_length take_999_full)

text \<open>
  C4 at its failing input. The cache is full and the entry under \<open>lru_key\<close> is its least
  recently used one, with a copy in the cache file. \<open>complete\<close> for a new prompt succeeds,
  and afterwards that entry is neither in memory nor in the cache file: the eviction wrote
  nothing, and the rewrite of the file dropped the copy.
\<close>

theorem complete_hf_eviction_not_persisted:
  "fst (last (cache_entries (cache full_provider))) = lru_key
   \<and> length (cache_entries (cache full_provider)) = cache_max (cache full_provider)
   \<and> lru_key \<in> fst ` set (disk_pairs full_world)
   \<and> fst (complete_hf inference_server 5 ''hello'' no_options full_provider full_world)
       = Inr ''Improved prompt''
   \<and> lru_key \<notin> fst ` set (cache_entries (cache (fst (snd
          (complete_hf inference_server 5 ''hello'' no_options full_provider full_world)))))
   \<and> lru_key \<notin> fst ` set (disk_pairs (snd (snd
          (complete_hf inference_server 5 ''hello'' no_options full_provider full_world))))"
proof -
  let ?mdl = "\<lparr>model_id = Some ''mistralai/Mixtral-8x7B-Instruct-v0.1'',
                model_maxTokens = Some 1024, model_rateLimit = Some 2000\<rparr>"
  have tier: "models (show_name (js_or (modelTier no_options) (Some ''balanced''))) = Some ?mdl"
    by (simp add: models_def no_options_def js_or_def truthy_def show_name_def)
  have key: "getCacheKey ''hello'' (model_id ?mdl) no_options = hello_key"
    by (simp add: hello_key_def)
  have absent: "map_of (cache_entries (cache full_provider))
                  (getCacheKey ''hello'' (model_id ?mdl) no_options) = None"
    using hello_key_fresh by (simp only: key) (simp add: full_provider_def map_of_eq_None_iff)
  have resp: "inference_server
                (inference_request (hf_baseUrl full_provider) (apiKey full_provider) ?mdl ''hello''
                   no_options) (backend full_world)
              = (Inr \<lparr>ok = True, http_status = 200,
                      payload = HFGenerated (Some ''Improved prompt'')\<rparr>, ())"
    by (simp add: inference_server_def)
  have dir: "cache_dir_exists full_world"
    by (simp add: full_world_def world0_def)
  note r = complete_hf_miss
             [where opts = no_options and mdl = ?mdl and p = full_provider and prompt = "''hello''"
                and server = inference_server and w = full_world and st = 200
                and reply = "''Improved prompt''" and b' = "()" and now = 5,
              OF tier absent resp dir, unfolded key full_set]
  have a: "fst (last (cache_entries (cache full_provider))) = lru_key"
    by (simp add: full_provider_def full_entries_last)
  have b: "length (cache_entries (cache full_provider)) = cache_max (cache full_provider)"
    by (simp add: full_provider_def full_entries_length)
  have "lru_key \<in> fst ` set full_entries"
    unfolding full_entries_keys lru_key_def
    by (rule image_eqI [of _ _ 999]) simp_all
  then have c: "lru_key \<in> fst ` set (disk_pairs full_world)"
    by (simp add: disk_pairs_def CacheData_def file_records_recorded full_world_def world0_def
          image_image)
  have not_hello: "lru_key \<noteq> hello_key"
    by (simp add: lru_key_def question_key_not_hello)
  have not_rest: "lru_key \<notin> question_key ` {0..<999}"
    by (auto simp: lru_key_def question_key_eq)
  have d: "lru_key \<notin> fst ` set (cache_entries (cache (fst (snd
          (complete_hf inference_server 5 ''hello'' no_options full_provider full_world)))))"
    using not_hello not_rest by (simp add: r(2) image_image)
  have valid: "cache_items 5 \<lparr>cache_max = 1000, cache_ttl = 86400000,
      cache_entries = (hello_key, ''Improved prompt'', 5)
                        # map (\<lambda>i. (question_key i, ''v'', 0)) [0..<999]\<rparr>
     = map (\<lambda>e. (fst e, fst (snd e)))
         ((hello_key, ''Improved prompt'', 5::int)
            # map (\<lambda>i. (question_key i, ''v'', 0::int)) [0..<999])"
    by (rule cache_items_all_valid) auto
  have e: "lru_key \<notin> fst ` set (disk_pairs (snd (snd
          (complete_hf inference_server 5 ''hello'' no_options full_provider full_world))))"
    using not_hello not_rest
    by (simp add: disk_pairs_def CacheData_def file_records_recorded r(3) valid image_image
          comp_def case_prod_beta)
  show ?thesis
    using a b c d e r(1) by simp
qed

end
